theory Spec2Isabelle
  imports Complex_Main
begin

section \<open>Python values used by the spoiler subsystem of cogs/buttons.py\<close>

text \<open>
  Strings are lists of characters; a character stands for a code point below 256.
  Python's unbounded integers are \<open>int\<close>. Exceptions are values: a function that can
  raise returns \<open>exc + 'a\<close>, with \<open>Inl\<close> for the raised exception.
\<close>

datatype exc =
    KeyError string
  | IndexError
  | ValueError
  | TypeError
  | RuntimeError string
  | HTTPException string string
  | ClientError string

subsection \<open>\<open>str(n)\<close> and \<open>int(s)\<close>\<close>

definition is_digit :: "char \<Rightarrow> bool" where
  "is_digit c = (48 \<le> (of_char c :: nat) \<and> (of_char c :: nat) \<le> 57)"

definition digit_val :: "char \<Rightarrow> nat" where
  "digit_val c = (of_char c :: nat) - 48"

definition digit_char :: "nat \<Rightarrow> char" where
  "digit_char d = char_of (48 + d)"

fun nat_digits :: "nat \<Rightarrow> string" where
  "nat_digits n =
     (if n < 10 then [digit_char n] else nat_digits (n div 10) @ [digit_char (n mod 10)])"

declare nat_digits.simps [simp del]

definition py_str :: "int \<Rightarrow> string" where
  "py_str i = (if i < 0 then CHR ''-'' # nat_digits (nat (- i)) else nat_digits (nat i))"

text \<open>
  The whitespace that \<open>int(s)\<close> strips from both ends of a string of code points
  below 256: tab to carriage return, the space, and the two Latin-1 spaces (next line
  and no-break space). The separators 28 to 31 are not stripped.
\<close>

definition py_isspace :: "char \<Rightarrow> bool" where
  "py_isspace c =
     (let n = (of_char c :: nat)
      in (9 \<le> n \<and> n \<le> 13) \<or> n = 32 \<or> n = 133 \<or> n = 160)"

definition py_strip :: "string \<Rightarrow> string" where
  "py_strip s = rev (dropWhile py_isspace (rev (dropWhile py_isspace s)))"

text \<open>
  The digits of an integer literal: at least one digit, single underscores allowed
  between digits only. The flag says whether the previous character was a digit.
\<close>

fun int_body :: "bool \<Rightarrow> string \<Rightarrow> bool" where
  "int_body prev [] = prev"
| "int_body prev (c # cs) =
     (if is_digit c then int_body True cs
      else if c = CHR ''_'' \<and> prev then int_body False cs
      else False)"

definition digits_value :: "string \<Rightarrow> nat" where
  "digits_value ds = foldl (\<lambda>a c. 10 * a + digit_val c) 0 ds"

definition py_int :: "string \<Rightarrow> int option" where
  "py_int s =
     (let t = py_strip s;
          neg = (t \<noteq> [] \<and> hd t = CHR ''-'');
          body = (if t \<noteq> [] \<and> (hd t = CHR ''-'' \<or> hd t = CHR ''+'') then tl t else t)
      in if int_body False body
         then Some ((if neg then - 1 else 1) * int (digits_value (filter is_digit body)))
         else None)"

text \<open>
  \<open>int(x)\<close> where \<open>x\<close> is a slot of an embed: an absent slot reads as \<open>None\<close>, on which
  \<open>int\<close> raises TypeError; a string that is no integer literal raises ValueError.
\<close>

definition int_of_slot :: "string option \<Rightarrow> exc + int" where
  "int_of_slot x =
     (case x of
        None \<Rightarrow> Inl TypeError
      | Some s \<Rightarrow> (case py_int s of None \<Rightarrow> Inl ValueError | Some n \<Rightarrow> Inr n))"

text \<open>Truthiness of an optional string: \<open>None\<close> and the empty string are falsy.\<close>

definition truthy :: "string option \<Rightarrow> bool" where
  "truthy x = (case x of None \<Rightarrow> False | Some s \<Rightarrow> s \<noteq> [])"

section \<open>Data model\<close>

record Attachment =
  filename :: string
  url :: string
  size :: nat

text \<open>
  The slots of a \<open>discord.Embed\<close> that the subsystem reads or writes; a slot that was
  never set reads as \<open>None\<close>.
\<close>

record Embed =
  embed_title :: "string option"
  embed_description :: "string option"
  embed_author_name :: "string option"
  embed_footer_text :: "string option"

record Message =
  message_id :: int
  embeds :: "Embed list"
  message_attachments :: "Attachment list"

text \<open>
  \<open>SpoilerCache\<close>. The title is optional because \<open>get_spoiler_cache\<close> stores
  \<open>data.title\<close> unchecked, which is \<open>None\<close> for an embed without a title. The field
  \<open>text\<close> of the source is \<open>spoiler_text\<close> here.
\<close>

record SpoilerCache =
  author_id :: int
  channel_id :: int
  title :: "string option"
  spoiler_text :: "string option"
  attachments :: "Attachment list"

section \<open>The archive codec\<close>

text \<open>
  The embed that \<open>redirect_post\<close> builds for the storage channel (lines 451 to 456):
  the description is set only for a truthy text, the author name and the footer are
  the decimal renderings of the author id and the channel id.
\<close>

definition archive_embed :: "int \<Rightarrow> int \<Rightarrow> string \<Rightarrow> string option \<Rightarrow> Embed" where
  "archive_embed author channel ttl txt =
     \<lparr> embed_title = Some ttl,
       embed_description = (if truthy txt then txt else None),
       embed_author_name = Some (py_str author),
       embed_footer_text = Some (py_str channel) \<rparr>"

text \<open>
  The decode step of \<open>get_spoiler_cache\<close> (lines 500 to 508), which runs outside the
  \<open>try\<close> block: \<open>message.embeds[0]\<close> raises IndexError on a message without embeds and
  the two \<open>int(...)\<close> calls raise on a slot that is absent or no integer.
\<close>

definition decode :: "Message \<Rightarrow> exc + SpoilerCache" where
  "decode message =
     (case embeds message of
        [] \<Rightarrow> Inl IndexError
      | data # _ \<Rightarrow>
          (case int_of_slot (embed_author_name data) of
             Inl e \<Rightarrow> Inl e
           | Inr a \<Rightarrow>
               (case int_of_slot (embed_footer_text data) of
                  Inl e \<Rightarrow> Inl e
                | Inr c \<Rightarrow>
                    Inr \<lparr> author_id = a,
                          channel_id = c,
                          title = embed_title data,
                          spoiler_text = (if \<not> truthy (embed_description data) then None
                                  else embed_description data),
                          attachments = message_attachments message \<rparr>)))"

subsection \<open>File names\<close>

text \<open>\<open>str.lower\<close> on code points below 256: the ASCII and the Latin-1 capitals.\<close>

definition lower_char :: "char \<Rightarrow> char" where
  "lower_char c =
     (let n = (of_char c :: nat)
      in if (65 \<le> n \<and> n \<le> 90) \<or> (192 \<le> n \<and> n \<le> 214) \<or> (216 \<le> n \<and> n \<le> 222)
         then char_of (n + 32) else c)"

definition lower :: "string \<Rightarrow> string" where
  "lower s = map lower_char s"

definition endswith :: "string \<Rightarrow> string \<Rightarrow> bool" where
  "endswith s suf = (length suf \<le> length s \<and> drop (length s - length suf) s = suf)"

text \<open>\<open>s.endswith(t)\<close> for a tuple \<open>t\<close> of suffixes.\<close>

definition endswith_any :: "string \<Rightarrow> string list \<Rightarrow> bool" where
  "endswith_any s sufs = list_ex (endswith s) sufs"

fun join :: "string \<Rightarrow> string list \<Rightarrow> string" where
  "join sep [] = []"
| "join sep [x] = x"
| "join sep (x # y # ys) = x @ sep @ join sep (y # ys)"

definition supported_attachments :: "string list" where
  "supported_attachments =
     [''.png'', ''.jpg'', ''.jpeg'', ''.webm'', ''.gif'', ''.mp4'', ''.txt'']"

definition max_mib :: int where
  "max_mib = 25 * 1024 * 1024"

text \<open>\<open>SpoilerCache.has_single_image\<close>.\<close>

definition has_single_image :: "SpoilerCache \<Rightarrow> bool" where
  "has_single_image self =
     (case attachments self of
        [] \<Rightarrow> False
      | a # _ \<Rightarrow> endswith_any (lower (filename a)) [''.gif'', ''.png'', ''.jpg'', ''.jpeg''])"

section \<open>The world outside the process\<close>

text \<open>
  The remote calls of the subsystem are answered by a \<open>World\<close>: what the gateway cache
  knows (guilds, channels, users) and what each request returns or raises. Channels
  and users are named by their ids. Every call that the claims count is logged as an
  \<open>event\<close>, in program order, at the place of the call.
\<close>

record Response =
  status :: int
  content_length :: "string option"
  body :: "exc + string"

record File =
  file_filename :: string
  file_fp :: string

record User =
  user_id :: int
  bot :: bool

record Context =
  ctx_author_id :: int
  ctx_author_name :: string
  ctx_channel_id :: int
  ctx_attachments :: "Attachment list"

record World =
  get_guild :: "int \<Rightarrow> int list option"
  get_channel :: "int \<Rightarrow> bool"
  fetch_message :: "int \<Rightarrow> int \<Rightarrow> exc + Message"
  session_get :: "string \<Rightarrow> exc + Response"
  message_delete :: "exc option"
  storage_send :: "Embed \<Rightarrow> File list \<Rightarrow> exc + Message"
  ctx_send :: "Embed \<Rightarrow> exc + int"
  get_user :: "int \<Rightarrow> User option"
  fetch_user :: "int \<Rightarrow> exc + User"
  user_send :: "int \<Rightarrow> exc option"

datatype event =
    FetchMessage int int
  | CacheWrite int
  | SessionGet string
  | Sleep
  | MessageDelete
  | StorageSend Embed "File list"
  | CtxSendText string
  | CtxSendError exc
  | CtxSendEmbed Embed
  | FetchUser int
  | UserSend int SpoilerCache
  | RespondEmbed SpoilerCache
  | RespondText string

definition emit :: "event \<Rightarrow> 'a \<times> event list \<Rightarrow> 'a \<times> event list" where
  "emit e r = (fst r, e # snd r)"

definition SPOILER_EMOJI_ID :: int where
  "SPOILER_EMOJI_ID = 430469957042831371"

text \<open>
  The property \<open>Buttons.storage_channel\<close>: the guild must be cached and must know the
  channel; the result is the channel's id.
\<close>

definition storage_channel :: "World \<Rightarrow> int option" where
  "storage_channel w =
     (case get_guild w 182325885867786241 of
        None \<Rightarrow> None
      | Some channels \<Rightarrow>
          if 430229522340773899 \<in> set channels then Some 430229522340773899 else None)"

section \<open>Process state: the lookup cache and the reveal cooldown\<close>

text \<open>
  Modelled from the spec: the container \<open>lru.LRU\<close> is a compiled package that is not part
  of the sources. Sections 3 and 4.2 of the specification describe it: a bounded map
  that evicts the least-recently-accessed entry when its capacity is exceeded, and
  whose reads refresh recency. The entries are kept most recently accessed first.
\<close>

type_synonym 'v LRU = "(int \<times> 'v) list"

definition lru_getitem :: "int \<Rightarrow> 'v LRU \<Rightarrow> 'v option \<times> 'v LRU" where
  "lru_getitem k c =
     (case map_of c k of
        None \<Rightarrow> (None, c)
      | Some v \<Rightarrow> (Some v, (k, v) # filter (\<lambda>p. fst p \<noteq> k) c))"

definition lru_setitem :: "nat \<Rightarrow> int \<Rightarrow> 'v \<Rightarrow> 'v LRU \<Rightarrow> 'v LRU" where
  "lru_setitem cap k v c = take cap ((k, v) # filter (\<lambda>p. fst p \<noteq> k) c)"

text \<open>The capacity given in \<open>Buttons.__init__\<close>: \<open>LRU(128)\<close>.\<close>

definition spoiler_cache_size :: nat where
  "spoiler_cache_size = 128"

text \<open>
  Modelled from the spec: \<open>commands.Cooldown\<close> and \<open>commands.CooldownMapping\<close> belong to
  the discord.py library and are not part of the sources. Section 4.5 of the
  specification describes the bucket that \<open>Cooldown(1, 10.0)\<close> configures: capacity 1,
  one token refilled every 10 seconds, created lazily on first use. With capacity 1
  a bucket is the time at which its token was last taken, \<open>None\<close> while it was never
  taken; the clock is a parameter. \<open>update_rate_limit\<close> returns the time to wait
  when no token is left, and \<open>None\<close> when it took one.
\<close>

type_synonym bucket = "real option"

definition cooldown_per :: real where
  "cooldown_per = 10"

definition update_rate_limit :: "real \<Rightarrow> bucket \<Rightarrow> real option \<times> bucket" where
  "update_rate_limit now b =
     (case b of
        None \<Rightarrow> (None, Some now)
      | Some taken \<Rightarrow>
          if cooldown_per \<le> now - taken then (None, Some now)
          else (Some (cooldown_per - (now - taken)), Some taken))"

type_synonym SpoilerCooldown = "int \<times> int \<Rightarrow> bucket"

text \<open>
  \<open>SpoilerCooldown.is_rate_limited\<close>: the bucket key is the pair itself
  (\<open>_bucket_key\<close> returns its argument), and the answer is whether
  \<open>update_rate_limit\<close> returned a waiting time.
\<close>

definition is_rate_limited ::
  "real \<Rightarrow> SpoilerCooldown \<Rightarrow> int \<Rightarrow> int \<Rightarrow> bool \<times> SpoilerCooldown" where
  "is_rate_limited now cd mid uid =
     (let r = update_rate_limit now (cd (mid, uid))
      in (fst r \<noteq> None, cd ((mid, uid) := snd r)))"

record Buttons =
  spoiler_cache :: "SpoilerCache LRU"
  spoiler_cooldown :: SpoilerCooldown

text \<open>\<open>Buttons.__init__\<close>: an empty cache and no bucket.\<close>

definition init_Buttons :: Buttons where
  "init_Buttons = \<lparr> spoiler_cache = [], spoiler_cooldown = (\<lambda>_. None) \<rparr>"

section \<open>The publish pipeline: \<open>redirect_post\<close> and the \<open>spoiler\<close> command\<close>

text \<open>
  The loop over \<open>ctx.message.attachments\<close> (lines 430 to 446), with the running
  \<open>total_bytes\<close> and \<open>files\<close>. Both \<open>continue\<close> statements go on with the next
  attachment without the check of line 445; the \<open>break\<close> ends the loop.
\<close>

fun redirect_post_loop ::
  "World \<Rightarrow> int \<Rightarrow> File list \<Rightarrow> Attachment list \<Rightarrow> (exc + File list) \<times> event list" where
  "redirect_post_loop w total_bytes files [] = (Inr files, [])"
| "redirect_post_loop w total_bytes files (attach # rest) =
     emit (SessionGet (url attach))
       (case session_get w (url attach) of
          Inl e \<Rightarrow> (Inl e, [])
        | Inr resp \<Rightarrow>
            if status resp \<noteq> 200 then redirect_post_loop w total_bytes files rest
            else
              (case content_length resp of
                 None \<Rightarrow> (Inl (KeyError ''Content-Length''), [])
               | Some h \<Rightarrow>
                   (case py_int h of
                      None \<Rightarrow> (Inl ValueError, [])
                    | Some n \<Rightarrow>
                        if total_bytes + n > max_mib
                        then redirect_post_loop w total_bytes files rest
                        else
                          (case body resp of
                             Inl e \<Rightarrow> (Inl e, [])
                           | Inr data \<Rightarrow>
                               if total_bytes + n \<ge> max_mib
                               then (Inr (files @
                                      [\<lparr> file_filename = filename attach, file_fp = data \<rparr>]), [])
                               else redirect_post_loop w (total_bytes + n)
                                      (files @
                                        [\<lparr> file_filename = filename attach, file_fp = data \<rparr>])
                                      rest))))"

definition unsupported_message :: string where
  "unsupported_message =
     ''Unsupported file in attachments. Only '' @ join '', '' supported_attachments
       @ '' supported.''"

definition store_failed_message :: "string \<Rightarrow> string \<Rightarrow> string" where
  "store_failed_message cls e =
     ''Sorry. Could not store message due to '' @ cls @ '': '' @ e @ ''.''"

text \<open>
  \<open>Buttons.redirect_post\<close>. Only \<open>discord.HTTPException\<close> is caught around the send
  to storage; it carries its class name and its text.
\<close>

definition redirect_post ::
  "World \<Rightarrow> Context \<Rightarrow> string \<Rightarrow> string option
     \<Rightarrow> (exc + Message \<times> SpoilerCache) \<times> event list" where
  "redirect_post w ctx ttl txt =
     (case storage_channel w of
        None \<Rightarrow> (Inl (RuntimeError ''Spoiler storage was not found''), [])
      | Some storage \<Rightarrow>
          if \<not> list_all (\<lambda>attach. endswith_any (lower (filename attach)) supported_attachments)
                 (ctx_attachments ctx)
          then (Inl (RuntimeError unsupported_message), [])
          else
            (case redirect_post_loop w 0 [] (ctx_attachments ctx) of
               (Inl e, ev) \<Rightarrow> (Inl e, ev)
             | (Inr files, ev) \<Rightarrow>
                 (case message_delete w of
                    Some e \<Rightarrow> (Inl e, ev @ [Sleep, MessageDelete])
                  | None \<Rightarrow>
                      (let data = archive_embed (ctx_author_id ctx) (ctx_channel_id ctx) ttl txt;
                           ev' = ev @ [Sleep, MessageDelete, StorageSend data files]
                       in case storage_send w data files of
                            Inl (HTTPException cls e) \<Rightarrow>
                              (Inl (RuntimeError (store_failed_message cls e)), ev')
                          | Inl e \<Rightarrow> (Inl e, ev')
                          | Inr message \<Rightarrow>
                              (Inr (message,
                                 \<lparr> author_id = ctx_author_id ctx,
                                   channel_id = ctx_channel_id ctx,
                                   title = Some ttl,
                                   spoiler_text = txt,
                                   attachments = message_attachments message \<rparr>), ev')))))"

text \<open>\<open>SpoilerCache.to_spoiler_embed\<close>: the front-door post, whose footer is the id of
  the storage message. Colour and icon are left out.\<close>

definition fmt_title :: "string option \<Rightarrow> string" where
  "fmt_title t = (case t of None \<Rightarrow> ''None'' | Some s \<Rightarrow> s)"

definition to_spoiler_embed :: "SpoilerCache \<Rightarrow> Context \<Rightarrow> Message \<Rightarrow> Embed" where
  "to_spoiler_embed self ctx storage_message =
     \<lparr> embed_title =
         Some (if has_single_image self \<and> spoiler_text self = None
               then fmt_title (title self) @ '' Spoiler Image''
               else fmt_title (title self) @ '' Spoiler''),
       embed_description =
         Some ''This spoiler has been hidden. Press the button to reveal it!'',
       embed_author_name = Some (ctx_author_name ctx),
       embed_footer_text = Some (py_str (message_id storage_message)) \<rparr>"

text \<open>
  The command \<open>spoiler\<close>. Any exception of \<open>redirect_post\<close> is answered with
  \<open>ctx.send(str(e))\<close>; sending a plain text is taken to succeed.
\<close>

definition spoiler ::
  "World \<Rightarrow> Buttons \<Rightarrow> Context \<Rightarrow> string \<Rightarrow> string option
     \<Rightarrow> (exc + unit) \<times> Buttons \<times> event list" where
  "spoiler w self ctx ttl txt =
     (if length ttl > 100
      then (Inr (), self,
            [CtxSendText ''Sorry. Title has to be shorter than 100 characters.''])
      else
        (case redirect_post w ctx ttl txt of
           (Inl e, ev) \<Rightarrow> (Inr (), self, ev @ [CtxSendError e])
         | (Inr (storage_message, cache), ev) \<Rightarrow>
             (let embed = to_spoiler_embed cache ctx storage_message
              in case ctx_send w embed of
                   Inl e \<Rightarrow> (Inl e, self, ev @ [CtxSendEmbed embed])
                 | Inr spoiler_message_id \<Rightarrow>
                     (Inr (),
                      self\<lparr>spoiler_cache :=
                        lru_setitem spoiler_cache_size spoiler_message_id cache
                          (spoiler_cache self)\<rparr>,
                      ev @ [CtxSendEmbed embed, CacheWrite spoiler_message_id]))))"

section \<open>Reconstruction: \<open>get_spoiler_cache\<close>\<close>

text \<open>
  \<open>int(original_message.embeds[0].footer.text)\<close>, the pointer to the storage message.
\<close>

definition footer_pointer :: "Message \<Rightarrow> exc + int" where
  "footer_pointer original_message =
     (case embeds original_message of
        [] \<Rightarrow> Inl IndexError
      | e # _ \<Rightarrow> int_of_slot (embed_footer_text e))"

text \<open>
  \<open>Buttons.get_spoiler_cache\<close>. The result is \<open>Inr (Some cache)\<close> for a record,
  \<open>Inr None\<close> for the \<open>None\<close> of the source and \<open>Inl e\<close> for an exception that leaves
  the function. The bare \<open>except\<close> covers the two fetches and the pointer; the decode
  step comes after it. The parameters \<open>channel_id\<close> and \<open>message_id\<close> of the source are
  \<open>cid\<close> and \<open>mid\<close>.
\<close>

definition get_spoiler_cache ::
  "World \<Rightarrow> Buttons \<Rightarrow> int \<Rightarrow> int \<Rightarrow> (exc + SpoilerCache option) \<times> Buttons \<times> event list" where
  "get_spoiler_cache w self cid mid =
     (case lru_getitem mid (spoiler_cache self) of
        (Some hit, c) \<Rightarrow> (Inr (Some hit), self\<lparr>spoiler_cache := c\<rparr>, [])
      | (None, _) \<Rightarrow>
          (case storage_channel w of
             None \<Rightarrow> (Inr None, self, [])
           | Some storage \<Rightarrow>
               if \<not> get_channel w cid then (Inr None, self, [])
               else
                 (case fetch_message w cid mid of
                    Inl _ \<Rightarrow> (Inr None, self, [FetchMessage cid mid])
                  | Inr original_message \<Rightarrow>
                      (case footer_pointer original_message of
                         Inl _ \<Rightarrow> (Inr None, self, [FetchMessage cid mid])
                       | Inr storage_message_id \<Rightarrow>
                           (case fetch_message w storage storage_message_id of
                              Inl _ \<Rightarrow>
                                (Inr None, self,
                                 [FetchMessage cid mid,
                                  FetchMessage storage storage_message_id])
                            | Inr message \<Rightarrow>
                                (case decode message of
                                   Inl e \<Rightarrow>
                                     (Inl e, self,
                                      [FetchMessage cid mid,
                                       FetchMessage storage storage_message_id])
                                 | Inr cache \<Rightarrow>
                                     (Inr (Some cache),
                                      self\<lparr>spoiler_cache :=
                                        lru_setitem spoiler_cache_size mid cache
                                          (spoiler_cache self)\<rparr>,
                                      [FetchMessage cid mid,
                                       FetchMessage storage storage_message_id,
                                       CacheWrite mid])))))))"

section \<open>The two reveal paths\<close>

text \<open>
  \<open>SpoilerView.reveal_spoiler\<close>, the button: the rendering \<open>cache.to_embed(bot)\<close> is
  logged as the record it renders.
\<close>

definition reveal_spoiler ::
  "World \<Rightarrow> Buttons \<Rightarrow> int \<Rightarrow> int \<Rightarrow> (exc + unit) \<times> Buttons \<times> event list" where
  "reveal_spoiler w self cid mid =
     (case get_spoiler_cache w self cid mid of
        (Inl e, self', ev) \<Rightarrow> (Inl e, self', ev)
      | (Inr (Some cache), self', ev) \<Rightarrow> (Inr (), self', ev @ [RespondEmbed cache])
      | (Inr None, self', ev) \<Rightarrow>
          (Inr (), self', ev @ [RespondText ''Could not find this message in storage'']))"

record RawReactionActionEvent =
  emoji_id :: "int option"
  payload_message_id :: int
  payload_user_id :: int
  payload_channel_id :: int

text \<open>
  \<open>Buttons.on_raw_reaction_add\<close>, the reaction; \<open>now\<close> is the clock that the cooldown
  reads.
\<close>

definition on_raw_reaction_add ::
  "World \<Rightarrow> real \<Rightarrow> Buttons \<Rightarrow> RawReactionActionEvent
     \<Rightarrow> (exc + unit) \<times> Buttons \<times> event list" where
  "on_raw_reaction_add w now self payload =
     (if emoji_id payload \<noteq> Some SPOILER_EMOJI_ID then (Inr (), self, [])
      else
        (let r = is_rate_limited now (spoiler_cooldown self)
                   (payload_message_id payload) (payload_user_id payload);
             self1 = self\<lparr>spoiler_cooldown := snd r\<rparr>
         in if fst r then (Inr (), self1, [])
            else
              (case (case get_user w (payload_user_id payload) of
                       Some u \<Rightarrow> (Inr u, [])
                     | None \<Rightarrow>
                         (fetch_user w (payload_user_id payload),
                          [FetchUser (payload_user_id payload)])) of
                 (Inl e, ev) \<Rightarrow> (Inl e, self1, ev)
               | (Inr user, ev) \<Rightarrow>
                   if bot user then (Inr (), self1, ev)
                   else
                     (case get_spoiler_cache w self1 (payload_channel_id payload)
                             (payload_message_id payload) of
                        (Inl e, self2, ev2) \<Rightarrow> (Inl e, self2, ev @ ev2)
                      | (Inr None, self2, ev2) \<Rightarrow> (Inr (), self2, ev @ ev2)
                      | (Inr (Some cache), self2, ev2) \<Rightarrow>
                          (case user_send w (user_id user) of
                             Some e \<Rightarrow>
                               (Inl e, self2, ev @ ev2 @ [UserSend (user_id user) cache])
                           | None \<Rightarrow>
                               (Inr (), self2, ev @ ev2 @ [UserSend (user_id user) cache]))))))"

section \<open>Views of the event log\<close>

definition is_fetch :: "event \<Rightarrow> bool" where
  "is_fetch e = (case e of FetchMessage _ _ \<Rightarrow> True | _ \<Rightarrow> False)"

definition is_cache_write :: "event \<Rightarrow> bool" where
  "is_cache_write e = (case e of CacheWrite _ \<Rightarrow> True | _ \<Rightarrow> False)"

definition is_store_write :: "event \<Rightarrow> bool" where
  "is_store_write e =
     (case e of StorageSend _ _ \<Rightarrow> True | MessageDelete \<Rightarrow> True | _ \<Rightarrow> False)"

section \<open>The specification's words, for comparison with the code\<close>

text \<open>
  The type policy of the specification speaks of the extension of a file name: the
  part after the last dot, compared without regard to case. \<open>has_allowed_extension\<close>
  follows those words; the code tests suffixes of the lowered name instead.
\<close>

definition extension :: "string \<Rightarrow> string option" where
  "extension name =
     (if CHR ''.'' \<in> set name
      then Some (rev (takeWhile (\<lambda>c. c \<noteq> CHR ''.'') (rev name)))
      else None)"

definition allowed_extensions :: "string list" where
  "allowed_extensions = [''png'', ''jpg'', ''jpeg'', ''webm'', ''gif'', ''mp4'', ''txt'']"

definition has_allowed_extension :: "string \<Rightarrow> bool" where
  "has_allowed_extension name =
     (case extension (lower name) of
        None \<Rightarrow> False
      | Some e \<Rightarrow> e \<in> set allowed_extensions)"

text \<open>
  The size budget in the specification's words, on the names and sizes of the
  candidates: in the given order, a candidate that exceeds the remaining budget is
  skipped and not counted, the others are archived, and nothing more is looked at once
  the total has reached the cap.
\<close>

fun budget_select :: "int \<Rightarrow> int \<Rightarrow> (string \<times> int) list \<Rightarrow> string list" where
  "budget_select cap used [] = []"
| "budget_select cap used ((name, sz) # rest) =
     (if cap \<le> used then []
      else if cap - used < sz then budget_select cap used rest
      else name # budget_select cap (used + sz) rest)"

section \<open>Concrete worlds and inputs\<close>

text \<open>
  The inputs at which the general theorems are instantiated and the counterexamples
  evaluated: a gateway cache that knows the storage guild, a storage channel that
  keeps what it is sent, front-door posts and archive messages.
\<close>

definition mib :: int where
  "mib = 1024 * 1024"

definition storage_guild :: "int \<Rightarrow> int list option" where
  "storage_guild g = (if g = 182325885867786241 then Some [430229522340773899] else None)"

definition front_door :: "int \<Rightarrow> string \<Rightarrow> Message" where
  "front_door i pointer =
     \<lparr> message_id = i,
       embeds = [\<lparr> embed_title = Some ''cat Spoiler'',
                   embed_description =
                     Some ''This spoiler has been hidden. Press the button to reveal it!'',
                   embed_author_name = Some ''Danny'',
                   embed_footer_text = Some pointer \<rparr>],
       message_attachments = [] \<rparr>"

definition reconstruct_world :: World where
  "reconstruct_world =
     \<lparr> get_guild = storage_guild,
       get_channel = (\<lambda>c. c = 1),
       fetch_message = (\<lambda>c m.
         if c = 1 \<and> m = 2 then Inr (front_door 2 ''5'')
         else if c = 1 \<and> m = 3 then Inr (front_door 3 ''6'')
         else if c = 1 \<and> m = 4 then Inr (front_door 4 ''7'')
         else if c = 430229522340773899 \<and> m = 5
           then Inr \<lparr> message_id = 5, embeds = [], message_attachments = [] \<rparr>
         else if c = 430229522340773899 \<and> m = 6
           then Inr \<lparr> message_id = 6,
                      embeds = [\<lparr> embed_title = Some ''cat'', embed_description = None,
                                  embed_author_name = Some ''Danny'',
                                  embed_footer_text = Some ''1'' \<rparr>],
                      message_attachments = [] \<rparr>
         else if c = 430229522340773899 \<and> m = 7
           then Inr \<lparr> message_id = 7,
                      embeds = [archive_embed 8 1 ''cat'' (Some ''dies'')],
                      message_attachments = [] \<rparr>
         else Inl (HTTPException ''NotFound'' ''Unknown Message'')),
       session_get = (\<lambda>_. Inl (ClientError ''unreachable'')),
       message_delete = None,
       storage_send = (\<lambda>_ _. Inl (HTTPException ''Forbidden'' ''Missing Access'')),
       ctx_send = (\<lambda>_. Inr 0),
       get_user = (\<lambda>_. None),
       fetch_user = (\<lambda>u. Inr \<lparr> user_id = u, bot = False \<rparr>),
       user_send = (\<lambda>_. None) \<rparr>"

definition stored :: "Embed \<Rightarrow> File list \<Rightarrow> exc + Message" where
  "stored e fs =
     Inr \<lparr> message_id = 50, embeds = [e],
           message_attachments =
             map (\<lambda>f. \<lparr> filename = file_filename f, url = ''cdn/'' @ file_filename f,
                         size = length (file_fp f) \<rparr>) fs \<rparr>"

definition publish_world ::
  "(int \<Rightarrow> int list option) \<Rightarrow> (string \<Rightarrow> exc + Response)
     \<Rightarrow> (Embed \<Rightarrow> File list \<Rightarrow> exc + Message) \<Rightarrow> World" where
  "publish_world guild get send =
     \<lparr> get_guild = guild,
       get_channel = (\<lambda>c. c = 1),
       fetch_message = (\<lambda>_ _. Inl (HTTPException ''NotFound'' ''Unknown Message'')),
       session_get = get,
       message_delete = None,
       storage_send = send,
       ctx_send = (\<lambda>_. Inr 60),
       get_user = (\<lambda>_. None),
       fetch_user = (\<lambda>u. Inr \<lparr> user_id = u, bot = False \<rparr>),
       user_send = (\<lambda>_. None) \<rparr>"

definition attachment :: "string \<Rightarrow> Attachment" where
  "attachment name = \<lparr> filename = name, url = name, size = 0 \<rparr>"

definition post :: "string list \<Rightarrow> Context" where
  "post names =
     \<lparr> ctx_author_id = 8, ctx_author_name = ''Danny'', ctx_channel_id = 1,
       ctx_attachments = map attachment names \<rparr>"

definition ok_response :: "int \<Rightarrow> exc + Response" where
  "ok_response n = Inr \<lparr> status = 200, content_length = Some (py_str n), body = Inr ''data'' \<rparr>"

definition not_found :: "exc + Response" where
  "not_found = Inr \<lparr> status = 404, content_length = None, body = Inr [] \<rparr>"

definition reaction :: "int \<Rightarrow> int \<Rightarrow> RawReactionActionEvent" where
  "reaction m u =
     \<lparr> emoji_id = Some SPOILER_EMOJI_ID, payload_message_id = m, payload_user_id = u,
       payload_channel_id = 1 \<rparr>"

definition cat_record :: SpoilerCache where
  "cat_record =
     \<lparr> author_id = 8, channel_id = 1, title = Some ''cat'', spoiler_text = Some ''dies'',
       attachments = [] \<rparr>"

definition after_reaction :: Buttons where
  "after_reaction =
     \<lparr> spoiler_cache = [(4, cat_record)],
       spoiler_cooldown = (\<lambda>_. None)((4, 8) := Some 100) \<rparr>"

definition full_cache :: "nat LRU" where
  "full_cache = map (\<lambda>i. (int i, i)) [0..<128]"

section \<open>Facts about the integer renderings\<close>

lemma is_digit_digit_char: "d < 10 \<Longrightarrow> is_digit (digit_char d)"
  by (simp add: is_digit_def digit_char_def)

lemma digit_val_digit_char: "d < 10 \<Longrightarrow> digit_val (digit_char d) = d"
  by (simp add: digit_val_def digit_char_def)

lemma nat_digits_all_digits: "\<forall>c \<in> set (nat_digits n). is_digit c"
proof (induction n rule: nat_digits.induct)
  case (1 n)
  show ?case
  proof (cases "n < 10")
    case True
    then show ?thesis
      by (subst nat_digits.simps) (simp add: is_digit_digit_char)
  next
    case False
    with 1 show ?thesis
      by (subst nat_digits.simps) (simp add: is_digit_digit_char)
  qed
qed

lemma nat_digits_nonempty: "nat_digits n \<noteq> []"
  by (subst nat_digits.simps) simp

lemma digits_value_snoc: "digits_value (ds @ [c]) = 10 * digits_value ds + digit_val c"
  by (simp add: digits_value_def)

lemma digits_value_nat_digits: "digits_value (nat_digits n) = n"
proof (induction n rule: nat_digits.induct)
  case (1 n)
  show ?case
  proof (cases "n < 10")
    case True
    then show ?thesis
      by (subst nat_digits.simps) (simp add: digits_value_def digit_val_digit_char)
  next
    case False
    with 1 have "digits_value (nat_digits (n div 10)) = n div 10" by simp
    with False show ?thesis
      by (subst nat_digits.simps) (simp add: digits_value_snoc digit_val_digit_char)
  qed
qed

lemma int_body_all_digits:
  "\<forall>c \<in> set ds. is_digit c \<Longrightarrow> int_body prev ds = (prev \<or> ds \<noteq> [])"
  by (induction ds arbitrary: prev) auto

lemma filter_all_digits: "\<forall>c \<in> set ds. is_digit c \<Longrightarrow> filter is_digit ds = ds"
  by (induction ds) auto

lemma digit_not_space: "is_digit c \<Longrightarrow> \<not> py_isspace c"
  by (auto simp: is_digit_def py_isspace_def Let_def)

lemma minus_not_space: "\<not> py_isspace CHR ''-''"
  by (simp add: py_isspace_def)

lemma digit_not_sign: "is_digit c \<Longrightarrow> c \<noteq> CHR ''-'' \<and> c \<noteq> CHR ''+''"
  by (auto simp: is_digit_def)

lemma py_strip_id:
  assumes "s \<noteq> []" "\<not> py_isspace (hd s)" "\<not> py_isspace (last s)"
  shows "py_strip s = s"
proof -
  from assms(1,2) have a: "dropWhile py_isspace s = s"
    by (cases s) auto
  from assms(1,3) have "dropWhile py_isspace (rev s) = rev s"
    by (cases "rev s") (auto simp: hd_rev)
  with a show ?thesis
    by (simp add: py_strip_def)
qed

lemma nat_digits_hd: "is_digit (hd (nat_digits n))"
  using nat_digits_all_digits [of n] nat_digits_nonempty [of n] by (cases "nat_digits n") auto

lemma nat_digits_last: "is_digit (last (nat_digits n))"
  using nat_digits_all_digits [of n] nat_digits_nonempty [of n] last_in_set by blast

lemma py_int_nat_digits: "py_int (nat_digits n) = Some (int n)"
proof -
  have s: "py_strip (nat_digits n) = nat_digits n"
    by (rule py_strip_id)
      (simp_all add: nat_digits_nonempty digit_not_space nat_digits_hd nat_digits_last)
  have h: "hd (nat_digits n) \<noteq> CHR ''-'' \<and> hd (nat_digits n) \<noteq> CHR ''+''"
    using digit_not_sign nat_digits_hd by blast
  show ?thesis
    using h
    by (simp add: py_int_def s Let_def int_body_all_digits nat_digits_all_digits
        filter_all_digits digits_value_nat_digits nat_digits_nonempty)
qed

lemma py_int_minus_nat_digits: "py_int (CHR ''-'' # nat_digits n) = Some (- int n)"
proof -
  have s: "py_strip (CHR ''-'' # nat_digits n) = CHR ''-'' # nat_digits n"
    by (rule py_strip_id)
      (simp_all add: nat_digits_nonempty digit_not_space nat_digits_last minus_not_space)
  show ?thesis
    by (simp add: py_int_def s Let_def int_body_all_digits nat_digits_all_digits
        filter_all_digits digits_value_nat_digits nat_digits_nonempty)
qed

lemma py_int_py_str: "py_int (py_str i) = Some i"
  by (simp add: py_str_def py_int_nat_digits py_int_minus_nat_digits)

lemma int_of_slot_py_str: "int_of_slot (Some (py_str i)) = Inr i"
  by (simp add: int_of_slot_def py_int_py_str)

section \<open>Facts about the codec, the pipeline and the cache\<close>

lemma decode_archive_embed:
  "decode \<lparr> message_id = i, embeds = [archive_embed a c t x], message_attachments = atts \<rparr>
     = Inr \<lparr> author_id = a, channel_id = c, title = Some t,
             spoiler_text = (if truthy x then x else None), attachments = atts \<rparr>"
  by (simp add: decode_def archive_embed_def int_of_slot_py_str)

lemma truthy_iff: "truthy x = (x \<noteq> None \<and> x \<noteq> Some [])"
  by (cases x) (simp_all add: truthy_def)

lemma redirect_post_loop_events:
  "\<forall>e \<in> set (snd (redirect_post_loop w tot files atts)). \<exists>u. e = SessionGet u"
proof (induction atts arbitrary: tot files)
  case Nil
  then show ?case by simp
next
  case (Cons a atts)
  then show ?case
    by (auto simp: emit_def split: sum.splits if_splits option.splits)
qed

lemma redirect_post_Inr:
  assumes "redirect_post w ctx ttl tx = (Inr (message, cache), ev)"
  shows "cache = \<lparr> author_id = ctx_author_id ctx, channel_id = ctx_channel_id ctx,
                   title = Some ttl, spoiler_text = tx,
                   attachments = message_attachments message \<rparr>"
  using assms
  by (auto simp: redirect_post_def Let_def
      split: option.splits if_splits prod.splits sum.splits exc.splits)

lemma py_int_one_digit:
  "py_int ''1'' = Some 1" "py_int ''5'' = Some 5" "py_int ''6'' = Some 6" "py_int ''7'' = Some 7"
  by (simp_all add: py_int_def py_strip_def py_isspace_def is_digit_def digits_value_def
      digit_val_def)

lemma py_int_Danny: "py_int ''Danny'' = None"
  by (simp add: py_int_def py_strip_def py_isspace_def is_digit_def)

lemma storage_channel_storage_guild [simp]:
  "get_guild w = storage_guild \<Longrightarrow> storage_channel w = Some 430229522340773899"
  by (simp add: storage_channel_def storage_guild_def)

lemma get_spoiler_cache_raise_is_decode:
  "fst (get_spoiler_cache w self cid mid) = Inl e \<Longrightarrow>
     \<exists>s p message. fetch_message w s p = Inr message \<and> decode message = Inl e"
  by (auto simp: get_spoiler_cache_def split: prod.splits option.splits if_splits sum.splits)

lemma get_spoiler_cache_soft_failure:
  assumes "fst (lru_getitem mid (spoiler_cache self)) = None"
    and "storage_channel w = None \<or> \<not> get_channel w cid
         \<or> (\<exists>e. fetch_message w cid mid = Inl e)
         \<or> (\<exists>m e. fetch_message w cid mid = Inr m \<and> footer_pointer m = Inl e)
         \<or> (\<exists>m p s e. fetch_message w cid mid = Inr m \<and> footer_pointer m = Inr p
                \<and> storage_channel w = Some s \<and> fetch_message w s p = Inl e)"
  shows "fst (get_spoiler_cache w self cid mid) = Inr None
         \<and> fst (snd (get_spoiler_cache w self cid mid)) = self"
  using assms
  by (cases "lru_getitem mid (spoiler_cache self)")
     (auto simp: get_spoiler_cache_def split: option.splits sum.splits)

lemma lru_getitem_hit:
  "lru_getitem k c = (Some v, c') \<Longrightarrow> lru_getitem k c' = (Some v, c')"
  by (auto simp: lru_getitem_def split: option.splits)

lemma lru_getitem_setitem:
  "0 < cap \<Longrightarrow> lru_getitem k (lru_setitem cap k v c) = (Some v, lru_setitem cap k v c)"
proof -
  assume "0 < cap"
  then obtain n where n: "cap = Suc n" by (cases cap) auto
  have "filter (\<lambda>p. fst p \<noteq> k) (take n (filter (\<lambda>p. fst p \<noteq> k) c))
          = take n (filter (\<lambda>p. fst p \<noteq> k) c)"
    by (rule filter_True) (auto dest: in_set_takeD)
  then show ?thesis
    by (simp add: lru_getitem_def lru_setitem_def n)
qed

lemma get_spoiler_cache_events:
  "snd (snd (get_spoiler_cache w self cid mid)) = [] \<or>
   snd (snd (get_spoiler_cache w self cid mid)) = [FetchMessage cid mid] \<or>
   (\<exists>s p. snd (snd (get_spoiler_cache w self cid mid))
             = [FetchMessage cid mid, FetchMessage s p]) \<or>
   (\<exists>s p. snd (snd (get_spoiler_cache w self cid mid))
             = [FetchMessage cid mid, FetchMessage s p, CacheWrite mid])"
  by (auto simp: get_spoiler_cache_def split: prod.splits option.splits if_splits sum.splits)

lemma get_spoiler_cache_found_again:
  assumes "get_spoiler_cache w self cid mid = (Inr (Some cache), self', ev)"
  shows "fst (lru_getitem mid (spoiler_cache self')) = Some cache"
  using assms
  by (auto simp: get_spoiler_cache_def lru_getitem_setitem spoiler_cache_size_def
      dest: lru_getitem_hit split: prod.splits option.splits if_splits sum.splits)

lemma get_spoiler_cache_hit:
  "fst (lru_getitem mid (spoiler_cache self)) = Some cache \<Longrightarrow>
   get_spoiler_cache w self cid mid
     = (Inr (Some cache), self\<lparr>spoiler_cache := snd (lru_getitem mid (spoiler_cache self))\<rparr>, [])"
  by (auto simp: get_spoiler_cache_def split: prod.splits option.splits)

lemma endswith_iff: "endswith s suf = (\<exists>pre. s = pre @ suf)"
proof
  assume "endswith s suf"
  then have "s = take (length s - length suf) s @ suf"
    by (metis append_take_drop_id endswith_def)
  then show "\<exists>pre. s = pre @ suf" ..
next
  assume "\<exists>pre. s = pre @ suf"
  then show "endswith s suf"
    by (auto simp: endswith_def)
qed

lemma endswith_dot_extension:
  assumes "CHR ''.'' \<notin> set e"
  shows "endswith s (CHR ''.'' # e) = (extension s = Some e)"
proof
  assume "endswith s (CHR ''.'' # e)"
  then obtain pre where s: "s = pre @ CHR ''.'' # e"
    by (auto simp: endswith_iff)
  have "takeWhile (\<lambda>c. c \<noteq> CHR ''.'') (rev e @ CHR ''.'' # rev pre) = rev e"
    using assms by (subst takeWhile_append2) auto
  then show "extension s = Some e"
    by (simp add: extension_def s)
next
  assume x: "extension s = Some e"
  then have d: "CHR ''.'' \<in> set s" and e: "e = rev (takeWhile (\<lambda>c. c \<noteq> CHR ''.'') (rev s))"
    by (auto simp: extension_def split: if_splits)
  from d have "dropWhile (\<lambda>c. c \<noteq> CHR ''.'') (rev s) \<noteq> []"
    by (simp add: dropWhile_eq_Nil_conv) 
  moreover from this have "hd (dropWhile (\<lambda>c. c \<noteq> CHR ''.'') (rev s)) = CHR ''.''"
    using hd_dropWhile [of "\<lambda>c. c \<noteq> CHR ''.''" "rev s"] by simp
  ultimately obtain r where r: "dropWhile (\<lambda>c. c \<noteq> CHR ''.'') (rev s) = CHR ''.'' # r"
    by (cases "dropWhile (\<lambda>c. c \<noteq> CHR ''.'') (rev s)") auto
  have "rev s = takeWhile (\<lambda>c. c \<noteq> CHR ''.'') (rev s) @ dropWhile (\<lambda>c. c \<noteq> CHR ''.'') (rev s)"
    by simp
  then have "rev s = rev e @ CHR ''.'' # r"
    using e r by simp
  then have "rev (rev s) = rev (rev e @ CHR ''.'' # r)"
    by simp
  then have "s = rev r @ CHR ''.'' # e"
    by simp
  then show "endswith s (CHR ''.'' # e)"
    by (auto simp: endswith_iff)
qed

lemma supported_iff_allowed_extension:
  "endswith_any (lower name) supported_attachments = has_allowed_extension name"
proof (cases "extension (lower name)")
  case None
  then show ?thesis
    by (simp add: endswith_any_def supported_attachments_def has_allowed_extension_def
        endswith_dot_extension)
next
  case (Some e)
  then show ?thesis
    by (simp add: endswith_any_def supported_attachments_def has_allowed_extension_def
        allowed_extensions_def endswith_dot_extension eq_commute [of e])
qed

lemma publish_world_simps [simp]:
  "get_guild (publish_world guild get send) = guild"
  "session_get (publish_world guild get send) = get"
  "message_delete (publish_world guild get send) = None"
  "storage_send (publish_world guild get send) = send"
  "ctx_send (publish_world guild get send) = (\<lambda>_. Inr 60)"
  by (simp_all add: publish_world_def)

lemma supported_png [simp]:
  "endswith_any (lower ''a.png'') supported_attachments"
  "endswith_any (lower ''b.png'') supported_attachments"
  "endswith_any (lower ''c.png'') supported_attachments"
  by (simp_all add: lower_def lower_char_def endswith_any_def endswith_def
      supported_attachments_def)

lemma is_store_write_simps [simp]:
  "is_store_write (SessionGet u) = False"
  "is_store_write MessageDelete = True"
  "is_store_write (StorageSend d f) = True"
  "is_store_write Sleep = False"
  by (simp_all add: is_store_write_def)

lemma redirect_post_loop_no_store_write:
  "filter is_store_write (snd (redirect_post_loop w tot files atts)) = []"
  using redirect_post_loop_events [of w tot files atts]
  by (auto simp: filter_empty_conv)

lemma redirect_post_cases:
  "redirect_post w ctx ttl tx = (r, ev) \<Longrightarrow>
     ev = [] \<or> ev = snd (redirect_post_loop w 0 [] (ctx_attachments ctx))
        \<and> (\<exists>e. r = Inl e)
     \<or> (\<exists>e. message_delete w = Some e \<and> r = Inl e
           \<and> ev = snd (redirect_post_loop w 0 [] (ctx_attachments ctx)) @ [Sleep, MessageDelete])
     \<or> (\<exists>files. message_delete w = None
           \<and> redirect_post_loop w 0 [] (ctx_attachments ctx)
              = (Inr files, snd (redirect_post_loop w 0 [] (ctx_attachments ctx)))
           \<and> ev = snd (redirect_post_loop w 0 [] (ctx_attachments ctx))
                @ [Sleep, MessageDelete,
                   StorageSend (archive_embed (ctx_author_id ctx) (ctx_channel_id ctx) ttl tx)
                     files]
           \<and> (\<forall>cls m. storage_send w
                  (archive_embed (ctx_author_id ctx) (ctx_channel_id ctx) ttl tx) files
                    = Inl (HTTPException cls m)
                \<longrightarrow> r = Inl (RuntimeError (store_failed_message cls m))))"
  by (auto simp: redirect_post_def Let_def
      split: option.splits if_splits prod.splits sum.splits exc.splits)

lemma loop_step_raise:
  "session_get w (url attach) = Inl e \<Longrightarrow>
   redirect_post_loop w tot files (attach # rest) = (Inl e, [SessionGet (url attach)])"
  by (simp add: emit_def)

lemma loop_step_not_200:
  "session_get w (url attach) = Inr resp \<Longrightarrow> status resp \<noteq> 200 \<Longrightarrow>
   redirect_post_loop w tot files (attach # rest)
     = emit (SessionGet (url attach)) (redirect_post_loop w tot files rest)"
  by simp

lemma redirect_post_loop_raises:
  assumes "storage_channel w = Some s"
    and "list_all (\<lambda>attach. endswith_any (lower (filename attach)) supported_attachments)
           (ctx_attachments ctx)"
    and "fst (redirect_post_loop w 0 [] (ctx_attachments ctx)) = Inl e"
  shows "redirect_post w ctx ttl tx = (Inl e, snd (redirect_post_loop w 0 [] (ctx_attachments ctx)))"
  using assms
  by (cases "redirect_post_loop w 0 [] (ctx_attachments ctx)") (simp add: redirect_post_def)

lemma spoiler_redirect_post_raises:
  "length ttl \<le> 100 \<Longrightarrow> redirect_post w ctx ttl tx = (Inl e, ev) \<Longrightarrow>
   spoiler w self ctx ttl tx = (Inr (), self, ev @ [CtxSendError e])"
  by (simp add: spoiler_def)

lemma redirect_post_loop_budget_select:
  assumes "\<forall>a \<in> set atts. \<exists>resp h data.
              session_get w (url a) = Inr resp \<and> status resp = 200
              \<and> content_length resp = Some h \<and> py_int h = Some (sz a)
              \<and> body resp = Inr data"
    and "tot < max_mib"
  shows "\<exists>fs. fst (redirect_post_loop w tot files atts) = Inr fs
           \<and> map file_filename fs
              = map file_filename files
                @ budget_select max_mib tot (map (\<lambda>a. (filename a, sz a)) atts)"
  using assms
proof (induction atts arbitrary: tot files)
  case Nil
  then show ?case by simp
next
  case (Cons a atts)
  then obtain resp h data where r: "session_get w (url a) = Inr resp" "status resp = 200"
      "content_length resp = Some h" "py_int h = Some (sz a)" "body resp = Inr data"
    by auto
  from Cons.prems have rest: "\<forall>a \<in> set atts. \<exists>resp h data.
              session_get w (url a) = Inr resp \<and> status resp = 200
              \<and> content_length resp = Some h \<and> py_int h = Some (sz a)
              \<and> body resp = Inr data"
    by simp
  let ?f = "\<lparr> file_filename = filename a, file_fp = data \<rparr>"
  consider (skip) "tot + sz a > max_mib" | (full) "tot + sz a = max_mib"
    | (more) "tot + sz a < max_mib" by linarith
  then show ?case
  proof cases
    case skip
    with Cons.IH [OF rest Cons.prems(2), of files] r Cons.prems(2) show ?thesis
      by (simp add: emit_def)
  next
    case full
    with r Cons.prems(2) show ?thesis
      by (cases atts) (auto simp: emit_def)
  next
    case more
    with Cons.IH [OF rest more, of "files @ [?f]"] r Cons.prems(2) show ?thesis
      by (simp add: emit_def)
  qed
qed

lemma reveal_spoiler_ignores_cooldown:
  "reveal_spoiler w (self\<lparr>spoiler_cooldown := cd\<rparr>) cid mid
     = (fst (reveal_spoiler w self cid mid),
        (fst (snd (reveal_spoiler w self cid mid)))\<lparr>spoiler_cooldown := cd\<rparr>,
        snd (snd (reveal_spoiler w self cid mid)))"
  by (auto simp: reveal_spoiler_def get_spoiler_cache_def
      split: prod.splits option.splits if_splits sum.splits)

lemma reveal_spoiler_keeps_cooldown:
  "spoiler_cooldown (fst (snd (reveal_spoiler w self cid mid))) = spoiler_cooldown self"
  by (auto simp: reveal_spoiler_def get_spoiler_cache_def
      split: prod.splits option.splits if_splits sum.splits)

lemma is_rate_limited_fresh:
  "cd (m, u) = None \<Longrightarrow> is_rate_limited t cd m u = (False, cd((m, u) := Some t))"
  by (simp add: is_rate_limited_def update_rate_limit_def)

lemma is_rate_limited_denied:
  "cd (m, u) = Some t0 \<Longrightarrow> t - t0 < 10 \<Longrightarrow> is_rate_limited t cd m u = (True, cd)"
  by (auto simp: is_rate_limited_def update_rate_limit_def cooldown_per_def)

lemma is_rate_limited_refilled:
  "cd (m, u) = Some t0 \<Longrightarrow> 10 \<le> t - t0 \<Longrightarrow>
   is_rate_limited t cd m u = (False, cd((m, u) := Some t))"
  by (simp add: is_rate_limited_def update_rate_limit_def cooldown_per_def)

lemma is_rate_limited_allowed_takes:
  "\<not> fst (is_rate_limited t cd m u) \<Longrightarrow>
   snd (is_rate_limited t cd m u) = cd((m, u) := Some t)"
proof (cases "cd (m, u)")
  case None
  then show ?thesis by (simp add: is_rate_limited_fresh)
next
  case (Some t0)
  assume a: "\<not> fst (is_rate_limited t cd m u)"
  show ?thesis
  proof (cases "t - t0 < 10")
    case True
    with Some a show ?thesis by (simp add: is_rate_limited_denied)
  next
    case False
    with Some show ?thesis by (simp add: is_rate_limited_refilled)
  qed
qed

lemma is_rate_limited_after_allowed:
  assumes "\<not> fst (is_rate_limited t cd m u)"
  shows "fst (is_rate_limited t' (snd (is_rate_limited t cd m u)) m u) = (t' - t < 10)"
proof -
  let ?cd = "cd((m, u) := Some t)"
  have b: "?cd (m, u) = Some t" by simp
  have "fst (is_rate_limited t' ?cd m u) = (t' - t < 10)"
  proof (cases "t' - t < 10")
    case True
    with b show ?thesis by (simp add: is_rate_limited_denied)
  next
    case False
    with b show ?thesis by (simp add: is_rate_limited_refilled)
  qed
  with assms show ?thesis by (simp add: is_rate_limited_allowed_takes)
qed

lemma is_rate_limited_denied_keeps:
  "fst (is_rate_limited t cd m u) \<Longrightarrow> snd (is_rate_limited t cd m u) = cd"
proof (cases "cd (m, u)")
  case None
  assume "fst (is_rate_limited t cd m u)"
  with None show ?thesis by (simp add: is_rate_limited_fresh)
next
  case (Some t0)
  assume a: "fst (is_rate_limited t cd m u)"
  show ?thesis
  proof (cases "t - t0 < 10")
    case True
    with Some show ?thesis by (simp add: is_rate_limited_denied)
  next
    case False
    with Some a show ?thesis by (simp add: is_rate_limited_refilled)
  qed
qed

lemma is_rate_limited_other_pair:
  assumes "(m', u') \<noteq> (m, u)"
  shows "snd (is_rate_limited t cd m u) (m', u') = cd (m', u')"
    and "is_rate_limited t' (snd (is_rate_limited t cd m u)) m' u'
         = (fst (is_rate_limited t' cd m' u'),
            (snd (is_rate_limited t cd m u))((m', u') := snd (is_rate_limited t' cd m' u') (m', u')))"
  using assms by (auto simp: is_rate_limited_def Let_def)

lemma on_raw_reaction_add_other_emoji:
  "emoji_id payload \<noteq> Some SPOILER_EMOJI_ID \<Longrightarrow>
   on_raw_reaction_add w now self payload = (Inr (), self, [])"
  by (simp add: on_raw_reaction_add_def)

lemma on_raw_reaction_add_denied:
  "emoji_id payload = Some SPOILER_EMOJI_ID \<Longrightarrow>
   fst (is_rate_limited now (spoiler_cooldown self)
          (payload_message_id payload) (payload_user_id payload)) \<Longrightarrow>
   on_raw_reaction_add w now self payload = (Inr (), self, [])"
proof -
  assume e: "emoji_id payload = Some SPOILER_EMOJI_ID"
    and d: "fst (is_rate_limited now (spoiler_cooldown self)
          (payload_message_id payload) (payload_user_id payload))"
  from d have "snd (is_rate_limited now (spoiler_cooldown self)
          (payload_message_id payload) (payload_user_id payload)) = spoiler_cooldown self"
    by (rule is_rate_limited_denied_keeps)
  with e d show ?thesis
    by (simp add: on_raw_reaction_add_def Let_def)
qed

lemma on_raw_reaction_add_allowed:
  assumes "emoji_id payload = Some SPOILER_EMOJI_ID"
    and "\<not> fst (is_rate_limited now (spoiler_cooldown self)
               (payload_message_id payload) (payload_user_id payload))"
    and "(get_user w (payload_user_id payload) = Some user \<and> ev = [])
         \<or> (get_user w (payload_user_id payload) = None
             \<and> fetch_user w (payload_user_id payload) = Inr user
             \<and> ev = [FetchUser (payload_user_id payload)])"
  shows "bot user \<Longrightarrow>
           on_raw_reaction_add w now self payload
             = (Inr (),
                self\<lparr>spoiler_cooldown :=
                  (spoiler_cooldown self)
                    ((payload_message_id payload, payload_user_id payload) := Some now)\<rparr>,
                ev)"
    and "\<not> bot user \<Longrightarrow>
         get_spoiler_cache w
           (self\<lparr>spoiler_cooldown :=
              (spoiler_cooldown self)
                ((payload_message_id payload, payload_user_id payload) := Some now)\<rparr>)
           (payload_channel_id payload) (payload_message_id payload)
           = (Inr (Some cache), self2, ev2) \<Longrightarrow>
         user_send w (user_id user) = None \<Longrightarrow>
           on_raw_reaction_add w now self payload
             = (Inr (), self2, ev @ ev2 @ [UserSend (user_id user) cache])"
    and "\<not> bot user \<Longrightarrow>
         get_spoiler_cache w
           (self\<lparr>spoiler_cooldown :=
              (spoiler_cooldown self)
                ((payload_message_id payload, payload_user_id payload) := Some now)\<rparr>)
           (payload_channel_id payload) (payload_message_id payload)
           = (Inr None, self2, ev2) \<Longrightarrow>
           on_raw_reaction_add w now self payload = (Inr (), self2, ev @ ev2)"
  using assms(1,2,3) is_rate_limited_allowed_takes [OF assms(2)]
  by (auto simp: on_raw_reaction_add_def Let_def)

lemma reveal_spoiler_found:
  "get_spoiler_cache w self cid mid = (Inr (Some cache), self', ev) \<Longrightarrow>
   reveal_spoiler w self cid mid = (Inr (), self', ev @ [RespondEmbed cache])"
  by (simp add: reveal_spoiler_def)

lemma reveal_spoiler_missing:
  "get_spoiler_cache w self cid mid = (Inr None, self', ev) \<Longrightarrow>
   reveal_spoiler w self cid mid
     = (Inr (), self', ev @ [RespondText ''Could not find this message in storage''])"
  by (simp add: reveal_spoiler_def)

lemma lru_getitem_length: "length (snd (lru_getitem k c)) \<le> length c"
proof (cases "map_of c k")
  case None
  then show ?thesis by (simp add: lru_getitem_def)
next
  case (Some v)
  then have "(k, v) \<in> set c" by (rule map_of_SomeD)
  then have "length (filter (\<lambda>p. fst p \<noteq> k) c) < length c"
    by (intro length_filter_less [of "(k, v)"]) auto
  with Some show ?thesis by (simp add: lru_getitem_def)
qed

lemma lru_setitem_length: "length (lru_setitem cap k v c) \<le> cap"
  by (simp add: lru_setitem_def)

lemma filter_other_keys: "k \<notin> fst ` set c \<Longrightarrow> filter (\<lambda>p. fst p \<noteq> k) c = c"
  by (induction c) auto

lemma get_spoiler_cache_length:
  "length (spoiler_cache self) \<le> spoiler_cache_size \<Longrightarrow>
   length (spoiler_cache (fst (snd (get_spoiler_cache w self cid mid)))) \<le> spoiler_cache_size"
  using lru_getitem_length [of mid "spoiler_cache self"]
  by (auto simp: get_spoiler_cache_def lru_setitem_length
      split: prod.splits option.splits if_splits sum.splits)

lemma lru_setitem_full:
  assumes "length c = cap" "0 < cap" "k \<notin> fst ` set c"
  shows "lru_setitem cap k v c = (k, v) # butlast c"
proof -
  from assms(2) obtain n where "cap = Suc n" by (cases cap) auto
  with assms show ?thesis
    by (simp add: lru_setitem_def filter_other_keys butlast_conv_take)
qed

lemma map_of_butlast_last:
  assumes "distinct (map fst c)" "c \<noteq> []"
  shows "map_of (butlast c) (fst (last c)) = None"
proof -
  from assms(2) have "c = butlast c @ [last c]" by simp
  then have "distinct (map fst (butlast c @ [last c]))"
    using assms(1) by simp
  then have "fst (last c) \<notin> fst ` set (butlast c)"
    by auto
  then show ?thesis
    by (simp add: map_of_eq_None_iff)
qed

lemma lru_refresh_survives:
  assumes "distinct (map fst c)" "length c = cap" "2 \<le> cap"
    "map_of c k' = Some v'" "k \<notin> fst ` set c"
  shows "map_of (lru_setitem cap k v (snd (lru_getitem k' c))) k' = Some v'"
proof -
  from assms(4) have kk: "k' \<in> fst ` set c"
    by (metis map_of_SomeD fst_conv image_eqI)
  with assms(5) have ne: "k \<noteq> k'" by auto
  obtain n where n: "cap = Suc (Suc n)"
    using assms(3) by (metis Suc_le_D numeral_2_eq_2 Suc_le_mono)
  have "filter (\<lambda>p. fst p \<noteq> k) (filter (\<lambda>p. fst p \<noteq> k') c) = filter (\<lambda>p. fst p \<noteq> k') c"
    using assms(5) by (intro filter_True) force
  then have "lru_setitem cap k v (snd (lru_getitem k' c))
      = (k, v) # (k', v') # take n (filter (\<lambda>p. fst p \<noteq> k') c)"
    using assms(4) ne by (simp add: lru_setitem_def lru_getitem_def n)
  with ne show ?thesis by simp
qed

section \<open>Reconstruction\<close>

text \<open>
  C1. The claim: for every input, \<open>get_spoiler_cache\<close> lets no exception escape and
  returns a record or \<open>None\<close>. That holds up to the second fetch (lemma
  \<open>get_spoiler_cache_soft_failure\<close>). The code at two inputs of the decode step: the
  front-door post 2 points to the storage message 5, which has no embed, and
  \<open>message.embeds[0]\<close> raises IndexError; the front-door post 3 points to the storage
  message 6, whose author slot is a name and no integer, and \<open>int(data.author.name)\<close>
  raises ValueError. Both leave the function, because the decode step stands after
  the \<open>try\<close> block.
\<close>

theorem get_spoiler_cache_decode_raises:
  "fst (get_spoiler_cache reconstruct_world init_Buttons 1 2) = Inl IndexError
   \<and> fst (get_spoiler_cache reconstruct_world init_Buttons 1 3) = Inl ValueError"
  by (simp add: get_spoiler_cache_def reconstruct_world_def init_Buttons_def lru_getitem_def
      front_door_def footer_pointer_def int_of_slot_def py_int_one_digit py_int_Danny
      decode_def)

text \<open>
  C7. Reconstruction performs at most two remote fetches and at most one cache write
  and never writes to the durable store (no send to storage, no deletion). A cache
  hit returns the cached record with no remote call at all. A miss that finds the
  record makes exactly the two fetches and the one write, and after any call that
  returned a record, the next call for the same front-door id returns the identical
  record with no fetch, whatever the world and the channel are by then.
\<close>

theorem get_spoiler_cache_cost:
  "length (filter is_fetch (snd (snd (get_spoiler_cache w self cid mid)))) \<le> 2
   \<and> length (filter is_cache_write (snd (snd (get_spoiler_cache w self cid mid)))) \<le> 1
   \<and> filter is_store_write (snd (snd (get_spoiler_cache w self cid mid))) = []
   \<and> (fst (lru_getitem mid (spoiler_cache self)) = Some cache \<longrightarrow>
        fst (get_spoiler_cache w self cid mid) = Inr (Some cache)
        \<and> snd (snd (get_spoiler_cache w self cid mid)) = [])
   \<and> (fst (lru_getitem mid (spoiler_cache self)) = None
        \<and> get_spoiler_cache w self cid mid = (Inr (Some cache), self', ev) \<longrightarrow>
        (\<exists>s p. ev = [FetchMessage cid mid, FetchMessage s p, CacheWrite mid]))
   \<and> (get_spoiler_cache w self cid mid = (Inr (Some cache), self', ev) \<longrightarrow>
        fst (get_spoiler_cache w' self' cid' mid) = Inr (Some cache)
        \<and> snd (snd (get_spoiler_cache w' self' cid' mid)) = [])"
proof (intro conjI impI)
  show "length (filter is_fetch (snd (snd (get_spoiler_cache w self cid mid)))) \<le> 2"
    using get_spoiler_cache_events [of w self cid mid]
    by (auto simp: is_fetch_def)
  show "length (filter is_cache_write (snd (snd (get_spoiler_cache w self cid mid)))) \<le> 1"
    using get_spoiler_cache_events [of w self cid mid]
    by (auto simp: is_cache_write_def)
  show "filter is_store_write (snd (snd (get_spoiler_cache w self cid mid))) = []"
    using get_spoiler_cache_events [of w self cid mid]
    by (auto simp: is_store_write_def)
next
  assume "fst (lru_getitem mid (spoiler_cache self)) = Some cache"
  then show "fst (get_spoiler_cache w self cid mid) = Inr (Some cache)"
    and "snd (snd (get_spoiler_cache w self cid mid)) = []"
    by (simp_all add: get_spoiler_cache_hit)
next
  assume "fst (lru_getitem mid (spoiler_cache self)) = None
        \<and> get_spoiler_cache w self cid mid = (Inr (Some cache), self', ev)"
  then show "\<exists>s p. ev = [FetchMessage cid mid, FetchMessage s p, CacheWrite mid]"
    by (auto simp: get_spoiler_cache_def split: prod.splits option.splits if_splits sum.splits)
next
  assume a: "get_spoiler_cache w self cid mid = (Inr (Some cache), self', ev)"
  then have "fst (lru_getitem mid (spoiler_cache self')) = Some cache"
    by (rule get_spoiler_cache_found_again)
  then show "fst (get_spoiler_cache w' self' cid' mid) = Inr (Some cache)"
    and "snd (snd (get_spoiler_cache w' self' cid' mid)) = []"
    by (simp_all add: get_spoiler_cache_hit)
qed

theorem get_spoiler_cache_cost_witness:
  "get_spoiler_cache reconstruct_world init_Buttons 1 4
     = (Inr (Some cat_record), init_Buttons\<lparr>spoiler_cache := [(4, cat_record)]\<rparr>,
        [FetchMessage 1 4, FetchMessage 430229522340773899 7, CacheWrite 4])
   \<and> fst (get_spoiler_cache reconstruct_world
            (init_Buttons\<lparr>spoiler_cache := [(4, cat_record)]\<rparr>) 1 4) = Inr (Some cat_record)
   \<and> snd (snd (get_spoiler_cache reconstruct_world
            (init_Buttons\<lparr>spoiler_cache := [(4, cat_record)]\<rparr>) 1 4)) = []"
proof -
  have run: "get_spoiler_cache reconstruct_world init_Buttons 1 4
     = (Inr (Some cat_record), init_Buttons\<lparr>spoiler_cache := [(4, cat_record)]\<rparr>,
        [FetchMessage 1 4, FetchMessage 430229522340773899 7, CacheWrite 4])"
    by (simp add: get_spoiler_cache_def reconstruct_world_def init_Buttons_def lru_getitem_def
        front_door_def footer_pointer_def int_of_slot_def py_int_one_digit
        decode_archive_embed truthy_def cat_record_def lru_setitem_def spoiler_cache_size_def)
  from get_spoiler_cache_cost
    [where w = reconstruct_world and self = init_Buttons and cid = 1 and mid = 4
       and cache = cat_record and self' = "init_Buttons\<lparr>spoiler_cache := [(4, cat_record)]\<rparr>"
       and ev = "[FetchMessage 1 4, FetchMessage 430229522340773899 7, CacheWrite 4]"
       and w' = reconstruct_world and cid' = 1] run
  have "fst (get_spoiler_cache reconstruct_world
            (init_Buttons\<lparr>spoiler_cache := [(4, cat_record)]\<rparr>) 1 4) = Inr (Some cat_record)
   \<and> snd (snd (get_spoiler_cache reconstruct_world
            (init_Buttons\<lparr>spoiler_cache := [(4, cat_record)]\<rparr>) 1 4)) = []"
    by blast
  with run show ?thesis by blast
qed

section \<open>The publish pipeline\<close>

text \<open>
  C2, as stated: when the archive write fails, the origin message has not been
  deleted. The code at a post without attachments whose send to storage raises
  \<open>HTTPException\<close>: the pipeline fails with the archive-write error, and the event log
  shows the deletion before the send.
\<close>

theorem redirect_post_store_failure_counterexample:
  "redirect_post (publish_world storage_guild (\<lambda>_. Inl (ClientError ''unreachable''))
       (\<lambda>_ _. Inl (HTTPException ''DiscordServerError'' ''503'')))
     (post []) ''cat'' (Some ''dies'')
   = (Inl (RuntimeError (store_failed_message ''DiscordServerError'' ''503'')),
      [Sleep, MessageDelete, StorageSend (archive_embed 8 1 ''cat'' (Some ''dies'')) []])"
  by (simp add: redirect_post_def post_def)

text \<open>
  C2, amended: whenever \<open>redirect_post\<close> attempts the archive write, the deletion of the
  origin message has already been carried out (it is the event just before the send,
  and it did not raise), and nothing before it wrote to storage; when that send raises
  \<open>HTTPException\<close>, the pipeline fails with the archive-write error built from the
  exception's class name and text.
\<close>

theorem redirect_post_deletes_before_store:
  "StorageSend d f \<in> set (snd (redirect_post w ctx ttl tx)) \<longrightarrow>
     message_delete w = None
     \<and> (\<exists>pre. snd (redirect_post w ctx ttl tx) = pre @ [Sleep, MessageDelete, StorageSend d f]
            \<and> filter is_store_write pre = [])
     \<and> (\<forall>cls m. storage_send w d f = Inl (HTTPException cls m) \<longrightarrow>
            fst (redirect_post w ctx ttl tx) = Inl (RuntimeError (store_failed_message cls m)))"
proof
  assume a: "StorageSend d f \<in> set (snd (redirect_post w ctx ttl tx))"
  let ?loop = "redirect_post_loop w 0 [] (ctx_attachments ctx)"
  have n: "StorageSend d f \<notin> set (snd ?loop)"
    using redirect_post_loop_events [of w 0 "[]" "ctx_attachments ctx"] by auto
  have "redirect_post w ctx ttl tx
          = (fst (redirect_post w ctx ttl tx), snd (redirect_post w ctx ttl tx))"
    by simp
  from redirect_post_cases [OF this] a n
  show "message_delete w = None
     \<and> (\<exists>pre. snd (redirect_post w ctx ttl tx) = pre @ [Sleep, MessageDelete, StorageSend d f]
            \<and> filter is_store_write pre = [])
     \<and> (\<forall>cls m. storage_send w d f = Inl (HTTPException cls m) \<longrightarrow>
            fst (redirect_post w ctx ttl tx) = Inl (RuntimeError (store_failed_message cls m)))"
    by (auto simp: redirect_post_loop_no_store_write)
qed

theorem redirect_post_deletes_before_store_witness:
  "message_delete (publish_world storage_guild (\<lambda>_. Inl (ClientError ''unreachable''))
       (\<lambda>_ _. Inl (HTTPException ''Forbidden'' ''Missing Access''))) = None
   \<and> fst (redirect_post
        (publish_world storage_guild (\<lambda>_. Inl (ClientError ''unreachable''))
           (\<lambda>_ _. Inl (HTTPException ''Forbidden'' ''Missing Access'')))
        (post []) ''dog'' None)
     = Inl (RuntimeError (store_failed_message ''Forbidden'' ''Missing Access''))"
proof -
  let ?w = "publish_world storage_guild (\<lambda>_. Inl (ClientError ''unreachable''))
       (\<lambda>_ _. Inl (HTTPException ''Forbidden'' ''Missing Access''))"
  have mem: "StorageSend (archive_embed 8 1 ''dog'' None) []
      \<in> set (snd (redirect_post ?w (post []) ''dog'' None))"
    by (simp add: redirect_post_def post_def)
  have "storage_send ?w (archive_embed 8 1 ''dog'' None) []
      = Inl (HTTPException ''Forbidden'' ''Missing Access'')"
    by simp
  with redirect_post_deletes_before_store [THEN mp, OF mem] show ?thesis
    by blast
qed

text \<open>
  C4, as stated: a failed attachment fetch fails the publish and ends the pipeline.
  The code at a post with two attachments, the first of which is answered with status
  404: the first is skipped, the second is fetched and archived, the origin is
  deleted and the archive message is written.
\<close>

theorem redirect_post_skips_failed_fetch_counterexample:
  "redirect_post
     (publish_world storage_guild
        (\<lambda>u. if u = ''a.png'' then not_found else ok_response 4) stored)
     (post [''a.png'', ''b.png'']) ''cat'' None
   = (Inr (\<lparr> message_id = 50, embeds = [archive_embed 8 1 ''cat'' None],
              message_attachments = [\<lparr> filename = ''b.png'', url = ''cdn/b.png'', size = 4 \<rparr>] \<rparr>,
           \<lparr> author_id = 8, channel_id = 1, title = Some ''cat'', spoiler_text = None,
              attachments = [\<lparr> filename = ''b.png'', url = ''cdn/b.png'', size = 4 \<rparr>] \<rparr>),
      [SessionGet ''a.png'', SessionGet ''b.png'', Sleep, MessageDelete,
       StorageSend (archive_embed 8 1 ''cat'' None)
         [\<lparr> file_filename = ''b.png'', file_fp = ''data'' \<rparr>]])"
  by (simp add: redirect_post_def post_def attachment_def not_found_def ok_response_def
      py_int_py_str emit_def max_mib_def stored_def lower_def lower_char_def
      endswith_any_def endswith_def supported_attachments_def Let_def)

text \<open>
  C4, amended: a fetch that raises ends the loop at once with that exception, nothing
  being requested after it; when the loop ends with an exception, \<open>spoiler\<close> sends the
  exception's text to the author, leaves the process state as it was and neither
  deletes the origin nor writes to storage. A fetch answered with a status other than
  200 is no failure: the attachment is skipped and the loop goes on with the next one.
\<close>

theorem attachment_fetch_failure:
  "(session_get w (url attach) = Inl e \<longrightarrow>
      redirect_post_loop w tot files (attach # rest) = (Inl e, [SessionGet (url attach)]))
   \<and> (storage_channel w \<noteq> None
        \<and> list_all (\<lambda>attach. endswith_any (lower (filename attach)) supported_attachments)
             (ctx_attachments ctx)
        \<and> fst (redirect_post_loop w 0 [] (ctx_attachments ctx)) = Inl e
        \<and> length ttl \<le> 100 \<longrightarrow>
      spoiler w self ctx ttl tx
        = (Inr (), self,
           snd (redirect_post_loop w 0 [] (ctx_attachments ctx)) @ [CtxSendError e])
      \<and> filter is_store_write (snd (snd (spoiler w self ctx ttl tx))) = [])
   \<and> (session_get w (url attach) = Inr resp \<and> status resp \<noteq> 200 \<longrightarrow>
      redirect_post_loop w tot files (attach # rest)
        = emit (SessionGet (url attach)) (redirect_post_loop w tot files rest))"
proof (intro conjI impI)
  assume "session_get w (url attach) = Inl e"
  then show "redirect_post_loop w tot files (attach # rest) = (Inl e, [SessionGet (url attach)])"
    by (rule loop_step_raise)
next
  assume a: "storage_channel w \<noteq> None
        \<and> list_all (\<lambda>attach. endswith_any (lower (filename attach)) supported_attachments)
             (ctx_attachments ctx)
        \<and> fst (redirect_post_loop w 0 [] (ctx_attachments ctx)) = Inl e
        \<and> length ttl \<le> 100"
  then obtain s where "storage_channel w = Some s" by auto
  with a have "redirect_post w ctx ttl tx
      = (Inl e, snd (redirect_post_loop w 0 [] (ctx_attachments ctx)))"
    by (simp add: redirect_post_loop_raises)
  with a show s: "spoiler w self ctx ttl tx
        = (Inr (), self,
           snd (redirect_post_loop w 0 [] (ctx_attachments ctx)) @ [CtxSendError e])"
    by (simp add: spoiler_redirect_post_raises)
  show "filter is_store_write (snd (snd (spoiler w self ctx ttl tx))) = []"
    by (simp add: s redirect_post_loop_no_store_write is_store_write_def)
next
  assume "session_get w (url attach) = Inr resp \<and> status resp \<noteq> 200"
  then show "redirect_post_loop w tot files (attach # rest)
        = emit (SessionGet (url attach)) (redirect_post_loop w tot files rest)"
    by (simp add: loop_step_not_200)
qed

theorem attachment_fetch_failure_witness:
  "spoiler
     (publish_world storage_guild
        (\<lambda>u. if u = ''b.png'' then Inl (ClientError ''reset'') else ok_response 4) stored)
     init_Buttons (post [''a.png'', ''b.png'', ''c.png'']) ''cat'' None
   = (Inr (), init_Buttons,
      [SessionGet ''a.png'', SessionGet ''b.png'', CtxSendError (ClientError ''reset'')])"
proof -
  let ?w = "publish_world storage_guild
        (\<lambda>u. if u = ''b.png'' then Inl (ClientError ''reset'') else ok_response 4) stored"
  let ?ctx = "post [''a.png'', ''b.png'', ''c.png'']"
  have loop: "redirect_post_loop ?w 0 [] (ctx_attachments ?ctx)
      = (Inl (ClientError ''reset''), [SessionGet ''a.png'', SessionGet ''b.png''])"
    by (simp add: post_def attachment_def ok_response_def py_int_py_str emit_def max_mib_def)
  then have h: "storage_channel ?w \<noteq> None
        \<and> list_all (\<lambda>attach. endswith_any (lower (filename attach)) supported_attachments)
             (ctx_attachments ?ctx)
        \<and> fst (redirect_post_loop ?w 0 [] (ctx_attachments ?ctx)) = Inl (ClientError ''reset'')
        \<and> length ''cat'' \<le> 100"
    by (simp add: post_def attachment_def)
  from attachment_fetch_failure
    [where w = ?w and ctx = ?ctx and e = "ClientError ''reset''" and ttl = "''cat''"
       and self = init_Buttons and tx = None] h
  have "spoiler ?w init_Buttons ?ctx ''cat'' None
        = (Inr (), init_Buttons,
           snd (redirect_post_loop ?w 0 [] (ctx_attachments ?ctx))
             @ [CtxSendError (ClientError ''reset'')])"
    by blast
  with loop show ?thesis by simp
qed

text \<open>
  C5. The size budget. For an attachment fetched with status 200, a Content-Length
  \<open>n\<close> and a readable body: if the running total plus \<open>n\<close> exceeds 25 MiB the
  attachment is skipped and the loop goes on with the same total; if it stays below
  the cap the attachment is archived, counted, and the loop goes on; if it reaches the
  cap exactly the attachment is archived and the loop stops without requesting the
  rest. When every candidate is fetched so, the archived file names are those the
  specification's \<open>budget_select\<close> chooses, in order. For three attachments of 10 MiB
  the send to storage carries exactly the first two, and for one of 30 MiB it carries
  no file.
\<close>

theorem redirect_post_size_budget:
  "(session_get w (url attach) = Inr resp \<and> status resp = 200
      \<and> content_length resp = Some h \<and> py_int h = Some n \<and> body resp = Inr data \<longrightarrow>
      (max_mib < tot + n \<longrightarrow>
         redirect_post_loop w tot files (attach # rest)
           = emit (SessionGet (url attach)) (redirect_post_loop w tot files rest))
      \<and> (tot + n < max_mib \<longrightarrow>
         redirect_post_loop w tot files (attach # rest)
           = emit (SessionGet (url attach))
               (redirect_post_loop w (tot + n)
                  (files @ [\<lparr> file_filename = filename attach, file_fp = data \<rparr>]) rest))
      \<and> (tot + n = max_mib \<longrightarrow>
         redirect_post_loop w tot files (attach # rest)
           = (Inr (files @ [\<lparr> file_filename = filename attach, file_fp = data \<rparr>]),
              [SessionGet (url attach)])))
   \<and> ((\<forall>a \<in> set atts. \<exists>resp h data.
          session_get w (url a) = Inr resp \<and> status resp = 200
          \<and> content_length resp = Some h \<and> py_int h = Some (sz a) \<and> body resp = Inr data)
        \<and> tot < max_mib \<longrightarrow>
        (\<exists>fs. fst (redirect_post_loop w tot files atts) = Inr fs
           \<and> map file_filename fs
              = map file_filename files
                @ budget_select max_mib tot (map (\<lambda>a. (filename a, sz a)) atts)))
   \<and> snd (redirect_post (publish_world storage_guild (\<lambda>_. ok_response (10 * mib)) stored)
            (post [''a.png'', ''b.png'', ''c.png'']) ''cat'' None)
      = [SessionGet ''a.png'', SessionGet ''b.png'', SessionGet ''c.png'', Sleep, MessageDelete,
         StorageSend (archive_embed 8 1 ''cat'' None)
           [\<lparr> file_filename = ''a.png'', file_fp = ''data'' \<rparr>,
            \<lparr> file_filename = ''b.png'', file_fp = ''data'' \<rparr>]]
   \<and> snd (redirect_post (publish_world storage_guild (\<lambda>_. ok_response (30 * mib)) stored)
            (post [''a.png'']) ''cat'' None)
      = [SessionGet ''a.png'', Sleep, MessageDelete,
         StorageSend (archive_embed 8 1 ''cat'' None) []]"
proof (intro conjI impI)
  assume a: "session_get w (url attach) = Inr resp \<and> status resp = 200
      \<and> content_length resp = Some h \<and> py_int h = Some n \<and> body resp = Inr data"
  {
    assume "max_mib < tot + n"
    with a show "redirect_post_loop w tot files (attach # rest)
           = emit (SessionGet (url attach)) (redirect_post_loop w tot files rest)"
      by simp
  next
    assume "tot + n < max_mib"
    with a show "redirect_post_loop w tot files (attach # rest)
           = emit (SessionGet (url attach))
               (redirect_post_loop w (tot + n)
                  (files @ [\<lparr> file_filename = filename attach, file_fp = data \<rparr>]) rest)"
      by simp
  next
    assume "tot + n = max_mib"
    with a show "redirect_post_loop w tot files (attach # rest)
           = (Inr (files @ [\<lparr> file_filename = filename attach, file_fp = data \<rparr>]),
              [SessionGet (url attach)])"
      by (simp add: emit_def)
  }
next
  assume "(\<forall>a \<in> set atts. \<exists>resp h data.
          session_get w (url a) = Inr resp \<and> status resp = 200
          \<and> content_length resp = Some h \<and> py_int h = Some (sz a) \<and> body resp = Inr data)
        \<and> tot < max_mib"
  then show "\<exists>fs. fst (redirect_post_loop w tot files atts) = Inr fs
           \<and> map file_filename fs
              = map file_filename files
                @ budget_select max_mib tot (map (\<lambda>a. (filename a, sz a)) atts)"
    using redirect_post_loop_budget_select [of atts w sz tot files] by blast
next
  show "snd (redirect_post (publish_world storage_guild (\<lambda>_. ok_response (10 * mib)) stored)
            (post [''a.png'', ''b.png'', ''c.png'']) ''cat'' None)
      = [SessionGet ''a.png'', SessionGet ''b.png'', SessionGet ''c.png'', Sleep, MessageDelete,
         StorageSend (archive_embed 8 1 ''cat'' None)
           [\<lparr> file_filename = ''a.png'', file_fp = ''data'' \<rparr>,
            \<lparr> file_filename = ''b.png'', file_fp = ''data'' \<rparr>]]"
    by (simp add: redirect_post_def post_def attachment_def ok_response_def py_int_py_str
        emit_def max_mib_def mib_def stored_def Let_def)
  show "snd (redirect_post (publish_world storage_guild (\<lambda>_. ok_response (30 * mib)) stored)
            (post [''a.png'']) ''cat'' None)
      = [SessionGet ''a.png'', Sleep, MessageDelete,
         StorageSend (archive_embed 8 1 ''cat'' None) []]"
    by (simp add: redirect_post_def post_def attachment_def ok_response_def py_int_py_str
        emit_def max_mib_def mib_def stored_def Let_def)
qed

theorem redirect_post_size_budget_witness:
  "redirect_post_loop (publish_world storage_guild (\<lambda>_. ok_response (10 * mib)) stored)
     (20 * mib) [] [attachment ''c.png'', attachment ''d.txt'']
   = emit (SessionGet ''c.png'')
       (redirect_post_loop (publish_world storage_guild (\<lambda>_. ok_response (10 * mib)) stored)
          (20 * mib) [] [attachment ''d.txt''])
   \<and> redirect_post_loop (publish_world storage_guild (\<lambda>_. ok_response (5 * mib)) stored)
       (20 * mib) [] [attachment ''c.png'', attachment ''d.txt'']
     = (Inr [\<lparr> file_filename = ''c.png'', file_fp = ''data'' \<rparr>], [SessionGet ''c.png''])
   \<and> (\<exists>fs. fst (redirect_post_loop
                  (publish_world storage_guild (\<lambda>_. ok_response (10 * mib)) stored) 0 []
                  (map attachment [''a.png'', ''b.png'', ''c.png''])) = Inr fs
          \<and> map file_filename fs = [''a.png'', ''b.png''])"
proof -
  let ?w = "\<lambda>n. publish_world storage_guild (\<lambda>_. ok_response (n * mib)) stored"
  let ?r = "\<lambda>n. \<lparr> status = 200, content_length = Some (py_str (n * mib)), body = Inr ''data'' \<rparr>"
  have h: "session_get (?w n) (url (attachment ''c.png'')) = Inr (?r n)
      \<and> status (?r n) = 200 \<and> content_length (?r n) = Some (py_str (n * mib))
      \<and> py_int (py_str (n * mib)) = Some (n * mib) \<and> body (?r n) = Inr ''data''" for n
    by (simp add: ok_response_def py_int_py_str)
  have all: "(\<forall>a \<in> set (map attachment [''a.png'', ''b.png'', ''c.png'']). \<exists>resp h data.
          session_get (?w 10) (url a) = Inr resp \<and> status resp = 200
          \<and> content_length resp = Some h \<and> py_int h = Some ((\<lambda>_. 10 * mib) a)
          \<and> body resp = Inr data) \<and> 0 < max_mib"
    by (simp add: ok_response_def py_int_py_str max_mib_def)
  have u: "url (attachment ''c.png'') = ''c.png''" "filename (attachment ''c.png'') = ''c.png''"
    by (simp_all add: attachment_def)
  from redirect_post_size_budget
    [where w = "?w 10" and attach = "attachment ''c.png''" and resp = "?r 10"
       and h = "py_str (10 * mib)" and n = "10 * mib" and data = "''data''"
       and tot = "20 * mib" and files = "[]" and rest = "[attachment ''d.txt'']"] h [of 10]
  have 1: "redirect_post_loop (?w 10) (20 * mib) [] [attachment ''c.png'', attachment ''d.txt'']
   = emit (SessionGet ''c.png'')
       (redirect_post_loop (?w 10) (20 * mib) [] [attachment ''d.txt''])"
    by (simp add: max_mib_def mib_def u)
  from redirect_post_size_budget
    [where w = "?w 5" and attach = "attachment ''c.png''" and resp = "?r 5"
       and h = "py_str (5 * mib)" and n = "5 * mib" and data = "''data''"
       and tot = "20 * mib" and files = "[]" and rest = "[attachment ''d.txt'']"] h [of 5]
  have 2: "redirect_post_loop (?w 5) (20 * mib) [] [attachment ''c.png'', attachment ''d.txt'']
     = (Inr [\<lparr> file_filename = ''c.png'', file_fp = ''data'' \<rparr>], [SessionGet ''c.png''])"
    by (simp add: max_mib_def mib_def u)
  from redirect_post_size_budget
    [where atts = "map attachment [''a.png'', ''b.png'', ''c.png'']" and w = "?w 10"
       and sz = "\<lambda>_. 10 * mib" and tot = 0 and files = "[]"] all
  have 3: "\<exists>fs. fst (redirect_post_loop (?w 10) 0 []
                  (map attachment [''a.png'', ''b.png'', ''c.png''])) = Inr fs
          \<and> map file_filename fs = [''a.png'', ''b.png'']"
    by (simp add: attachment_def max_mib_def mib_def)
  from 1 2 3 show ?thesis by blast
qed

text \<open>
  C8, as stated: an attachment with an extension outside the allowed set fails the
  publish with the unsupported-attachment error. The code with the storage guild
  missing from the gateway cache: the publish of \<open>evil.exe\<close> fails with the error that
  the storage was not found, which is tested first.
\<close>

theorem redirect_post_storage_missing_counterexample:
  "redirect_post
     (publish_world (\<lambda>_. None) (\<lambda>_. Inl (ClientError ''unreachable'')) stored)
     (post [''evil.exe'']) ''cat'' None
   = (Inl (RuntimeError ''Spoiler storage was not found''), [])
   \<and> ''Spoiler storage was not found'' \<noteq> unsupported_message"
  by (simp add: redirect_post_def storage_channel_def unsupported_message_def)

text \<open>
  C8, amended: when the storage channel is found and some candidate attachment has an
  extension outside png, jpg, jpeg, webm, gif, mp4, txt (compared without regard to
  case; a name without a dot has none), \<open>redirect_post\<close> fails with the
  unsupported-attachment error before any request is made: the event log is empty.
  \<open>spoiler\<close> then sends that error to the author and does nothing else. When the
  storage channel is not found, \<open>redirect_post\<close> fails with the storage-not-found
  error instead, whatever the attachments are, also with an empty event log.
\<close>

theorem redirect_post_unsupported_attachment:
  "(storage_channel w \<noteq> None
    \<and> (\<exists>a \<in> set (ctx_attachments ctx). \<not> has_allowed_extension (filename a)) \<longrightarrow>
    redirect_post w ctx ttl tx = (Inl (RuntimeError unsupported_message), [])
    \<and> (length ttl \<le> 100 \<longrightarrow>
         spoiler w self ctx ttl tx
           = (Inr (), self, [CtxSendError (RuntimeError unsupported_message)])))
   \<and> (storage_channel w = None \<longrightarrow>
        redirect_post w ctx ttl tx
          = (Inl (RuntimeError ''Spoiler storage was not found''), []))"
proof (intro conjI impI)
  assume a: "storage_channel w \<noteq> None
   \<and> (\<exists>a \<in> set (ctx_attachments ctx). \<not> has_allowed_extension (filename a))"
  then have "\<not> list_all (\<lambda>attach. endswith_any (lower (filename attach)) supported_attachments)
                 (ctx_attachments ctx)"
    by (auto simp: list_all_iff supported_iff_allowed_extension)
  with a show r: "redirect_post w ctx ttl tx = (Inl (RuntimeError unsupported_message), [])"
    by (auto simp: redirect_post_def)
  assume "length ttl \<le> 100"
  with r show "spoiler w self ctx ttl tx
           = (Inr (), self, [CtxSendError (RuntimeError unsupported_message)])"
    by (simp add: spoiler_def)
next
  assume "storage_channel w = None"
  then show "redirect_post w ctx ttl tx
          = (Inl (RuntimeError ''Spoiler storage was not found''), [])"
    by (simp add: redirect_post_def)
qed

theorem redirect_post_unsupported_attachment_witness:
  "redirect_post
     (publish_world storage_guild (\<lambda>_. ok_response 4) stored)
     (post [''a.png'', ''evil.exe'']) ''cat'' None
   = (Inl (RuntimeError unsupported_message), [])
   \<and> spoiler (publish_world storage_guild (\<lambda>_. ok_response 4) stored) init_Buttons
       (post [''a.png'', ''evil.exe'']) ''cat'' None
     = (Inr (), init_Buttons, [CtxSendError (RuntimeError unsupported_message)])"
proof -
  have "\<not> has_allowed_extension ''evil.exe''"
    by (simp add: has_allowed_extension_def extension_def lower_def lower_char_def
        allowed_extensions_def)
  then have "storage_channel (publish_world storage_guild (\<lambda>_. ok_response 4) stored) \<noteq> None
    \<and> (\<exists>a \<in> set (ctx_attachments (post [''a.png'', ''evil.exe''])).
          \<not> has_allowed_extension (filename a))"
    by (simp add: post_def attachment_def)
  from redirect_post_unsupported_attachment
    [THEN conjunct1, THEN mp, OF this, of "''cat''" None init_Buttons]
  show ?thesis by simp
qed

section \<open>The reveal cooldown\<close>

text \<open>
  C6. The limiter keeps one bucket per pair of post and actor, with capacity 1 and a
  refill after 10 seconds. \<open>Buttons.__init__\<close> starts without buckets. A call for a
  pair without a bucket allows and records the time; a call for a pair whose token
  was taken less than 10 seconds ago denies and changes nothing; a call 10 seconds or
  more after the token was taken allows and records the new time. So after every
  allowed call, from any state, a later call for the same pair is denied exactly
  while less than 10 seconds have passed since it, and a denied call in between does
  not move that time. A call for one pair leaves the bucket and the answer of every
  other pair, another actor or another post, as they were. The reaction path: a
  reaction with another emoji does nothing; a reaction that the limiter denies does
  nothing; a reaction that the limiter allows takes the token, resolves the user,
  stops for a bot, and otherwise reconstructs the record and sends it to the user, or
  stays silent when there is none. The button path never consults the limiter: it
  answers with the record or with the not-found text, its result and its events are
  the same under every cooldown state, and it leaves the cooldown as it was.
\<close>

theorem reveal_rate_limiter:
  "spoiler_cooldown init_Buttons (m, u) = None
   \<and> (cd (m, u) = None \<longrightarrow> is_rate_limited t cd m u = (False, cd((m, u) := Some t)))
   \<and> (cd (m, u) = Some t0 \<and> t - t0 < 10 \<longrightarrow> is_rate_limited t cd m u = (True, cd))
   \<and> (cd (m, u) = Some t0 \<and> 10 \<le> t - t0 \<longrightarrow>
        is_rate_limited t cd m u = (False, cd((m, u) := Some t)))
   \<and> (\<not> fst (is_rate_limited t cd m u) \<longrightarrow>
        fst (is_rate_limited t' (snd (is_rate_limited t cd m u)) m u) = (t' - t < 10))
   \<and> (fst (is_rate_limited t cd m u) \<longrightarrow> snd (is_rate_limited t cd m u) = cd)
   \<and> (cd (m, u) = None \<longrightarrow>
        \<not> fst (is_rate_limited t cd m u)
        \<and> fst (is_rate_limited t (snd (is_rate_limited t cd m u)) m u)
        \<and> (t + 10 \<le> t' \<longrightarrow>
             \<not> fst (is_rate_limited t' (snd (is_rate_limited t cd m u)) m u))
        \<and> (t + 10 \<le> t' \<longrightarrow>
             \<not> fst (is_rate_limited t'
                   (snd (is_rate_limited t (snd (is_rate_limited t cd m u)) m u)) m u)))
   \<and> (cd (m, u) = Some t0 \<longrightarrow> fst (is_rate_limited t cd m u) = (t - t0 < 10))
   \<and> ((m', u') \<noteq> (m, u) \<longrightarrow>
        snd (is_rate_limited t cd m u) (m', u') = cd (m', u')
        \<and> fst (is_rate_limited t' (snd (is_rate_limited t cd m u)) m' u')
            = fst (is_rate_limited t' cd m' u'))
   \<and> (emoji_id payload \<noteq> Some SPOILER_EMOJI_ID \<longrightarrow>
        on_raw_reaction_add w now self payload = (Inr (), self, []))
   \<and> (emoji_id payload = Some SPOILER_EMOJI_ID
        \<and> fst (is_rate_limited now (spoiler_cooldown self)
                 (payload_message_id payload) (payload_user_id payload)) \<longrightarrow>
        on_raw_reaction_add w now self payload = (Inr (), self, []))
   \<and> (emoji_id payload = Some SPOILER_EMOJI_ID
        \<and> \<not> fst (is_rate_limited now (spoiler_cooldown self)
                   (payload_message_id payload) (payload_user_id payload))
        \<and> ((get_user w (payload_user_id payload) = Some user \<and> ev = [])
             \<or> (get_user w (payload_user_id payload) = None
                 \<and> fetch_user w (payload_user_id payload) = Inr user
                 \<and> ev = [FetchUser (payload_user_id payload)])) \<longrightarrow>
        (bot user \<longrightarrow>
           on_raw_reaction_add w now self payload
             = (Inr (),
                self\<lparr>spoiler_cooldown :=
                  (spoiler_cooldown self)
                    ((payload_message_id payload, payload_user_id payload) := Some now)\<rparr>,
                ev))
        \<and> (\<not> bot user
             \<and> get_spoiler_cache w
                  (self\<lparr>spoiler_cooldown :=
                     (spoiler_cooldown self)
                       ((payload_message_id payload, payload_user_id payload) := Some now)\<rparr>)
                  (payload_channel_id payload) (payload_message_id payload)
                = (Inr (Some cache), self2, ev2)
             \<and> user_send w (user_id user) = None \<longrightarrow>
           on_raw_reaction_add w now self payload
             = (Inr (), self2, ev @ ev2 @ [UserSend (user_id user) cache]))
        \<and> (\<not> bot user
             \<and> get_spoiler_cache w
                  (self\<lparr>spoiler_cooldown :=
                     (spoiler_cooldown self)
                       ((payload_message_id payload, payload_user_id payload) := Some now)\<rparr>)
                  (payload_channel_id payload) (payload_message_id payload)
                = (Inr None, self2, ev2) \<longrightarrow>
           on_raw_reaction_add w now self payload = (Inr (), self2, ev @ ev2)))
   \<and> (get_spoiler_cache w self cid mid = (Inr (Some cache), self', ev') \<longrightarrow>
        reveal_spoiler w self cid mid = (Inr (), self', ev' @ [RespondEmbed cache]))
   \<and> (get_spoiler_cache w self cid mid = (Inr None, self', ev') \<longrightarrow>
        reveal_spoiler w self cid mid
          = (Inr (), self', ev' @ [RespondText ''Could not find this message in storage'']))
   \<and> fst (reveal_spoiler w (self\<lparr>spoiler_cooldown := cd\<rparr>) cid mid)
       = fst (reveal_spoiler w self cid mid)
   \<and> snd (snd (reveal_spoiler w (self\<lparr>spoiler_cooldown := cd\<rparr>) cid mid))
       = snd (snd (reveal_spoiler w self cid mid))
   \<and> spoiler_cooldown (fst (snd (reveal_spoiler w self cid mid))) = spoiler_cooldown self"
  apply (intro conjI)
  subgoal by (simp add: init_Buttons_def)
  subgoal by (simp add: is_rate_limited_fresh)
  subgoal by (simp add: is_rate_limited_denied)
  subgoal by (simp add: is_rate_limited_refilled)
  subgoal by (simp add: is_rate_limited_after_allowed)
  subgoal by (simp add: is_rate_limited_denied_keeps)
  subgoal by (simp add: is_rate_limited_def update_rate_limit_def cooldown_per_def)
  subgoal by (auto simp: is_rate_limited_def update_rate_limit_def cooldown_per_def)
  subgoal by (auto simp: is_rate_limited_def Let_def)
  subgoal by (simp add: on_raw_reaction_add_other_emoji)
  subgoal by (simp add: on_raw_reaction_add_denied)
  subgoal
    using on_raw_reaction_add_allowed [of payload now self w user ev]
    by blast
  subgoal by (simp add: reveal_spoiler_found)
  subgoal by (simp add: reveal_spoiler_missing)
  subgoal by (subst reveal_spoiler_ignores_cooldown) simp
  subgoal by (subst reveal_spoiler_ignores_cooldown) simp
  subgoal by (rule reveal_spoiler_keeps_cooldown)
  done

theorem reveal_rate_limiter_witness:
  "is_rate_limited 100 (spoiler_cooldown init_Buttons) 4 8
     = (False, (spoiler_cooldown init_Buttons)((4, 8) := Some 100))
   \<and> is_rate_limited 105 (spoiler_cooldown after_reaction) 4 8
       = (True, spoiler_cooldown after_reaction)
   \<and> is_rate_limited 110 (spoiler_cooldown after_reaction) 4 8
       = (False, (spoiler_cooldown after_reaction)((4, 8) := Some 110))
   \<and> fst (is_rate_limited 115
            (snd (is_rate_limited 110 (spoiler_cooldown after_reaction) 4 8)) 4 8)
   \<and> \<not> fst (is_rate_limited 100 (spoiler_cooldown after_reaction) 4 9)
   \<and> \<not> fst (is_rate_limited 100 (spoiler_cooldown after_reaction) 5 8)
   \<and> on_raw_reaction_add reconstruct_world 100 init_Buttons (reaction 4 8)
       = (Inr (), after_reaction,
          [FetchUser 8, FetchMessage 1 4, FetchMessage 430229522340773899 7, CacheWrite 4,
           UserSend 8 cat_record])
   \<and> on_raw_reaction_add reconstruct_world 105 after_reaction (reaction 4 8)
       = (Inr (), after_reaction, [])
   \<and> reveal_spoiler reconstruct_world after_reaction 1 4
       = (Inr (), after_reaction, [RespondEmbed cat_record])"
proof -
  let ?cd0 = "spoiler_cooldown init_Buttons"
  let ?cd1 = "spoiler_cooldown after_reaction"
  let ?user = "\<lparr> user_id = 8, bot = False \<rparr>"
  have cd1: "?cd1 = ?cd0((4, 8) := Some 100)"
    by (simp add: after_reaction_def init_Buttons_def)
  have 1: "is_rate_limited 100 ?cd0 4 8 = (False, ?cd0((4, 8) := Some 100))"
    using reveal_rate_limiter [where cd = ?cd0 and m = 4 and u = 8 and t = 100]
    by blast
  have b: "?cd1 (4, 8) = Some 100 \<and> (105::real) - 100 < 10"
    by (simp add: after_reaction_def)
  have 2: "is_rate_limited 105 ?cd1 4 8 = (True, ?cd1)"
    using reveal_rate_limiter [where cd = ?cd1 and m = 4 and u = 8 and t = 105 and ?t0.0 = 100] b
    by blast
  have c: "?cd1 (4, 8) = Some 100 \<and> (10::real) \<le> 110 - 100"
    by (simp add: after_reaction_def)
  have 3: "is_rate_limited 110 ?cd1 4 8 = (False, ?cd1((4, 8) := Some 110))"
    using reveal_rate_limiter [where cd = ?cd1 and m = 4 and u = 8 and t = 110 and ?t0.0 = 100] c
    by blast
  from 3 have "\<not> fst (is_rate_limited 110 ?cd1 4 8)"
    by simp
  with reveal_rate_limiter [where cd = ?cd1 and m = 4 and u = 8 and t = 110 and t' = 115]
  have "fst (is_rate_limited 115 (snd (is_rate_limited 110 ?cd1 4 8)) 4 8)
      = ((115::real) - 110 < 10)"
    by blast
  then have 4: "fst (is_rate_limited 115 (snd (is_rate_limited 110 ?cd1 4 8)) 4 8)"
    by simp
  have o1: "((4::int), (9::int)) \<noteq> (4, 8)" and o2: "((5::int), (8::int)) \<noteq> (4, 8)"
    by simp_all
  have "fst (is_rate_limited 100 (snd (is_rate_limited 100 ?cd0 4 8)) 4 9)
      = fst (is_rate_limited 100 ?cd0 4 9)"
    using reveal_rate_limiter
      [where cd = ?cd0 and m = 4 and u = 8 and t = 100 and t' = 100 and m' = 4 and u' = 9] o1
    by blast
  moreover have "is_rate_limited 100 ?cd0 4 9 = (False, ?cd0((4, 9) := Some 100))"
    using reveal_rate_limiter [where cd = ?cd0 and m = 4 and u = 9 and t = 100]
    by blast
  ultimately have 5: "\<not> fst (is_rate_limited 100 ?cd1 4 9)"
    by (simp add: 1 cd1)
  have "fst (is_rate_limited 100 (snd (is_rate_limited 100 ?cd0 4 8)) 5 8)
      = fst (is_rate_limited 100 ?cd0 5 8)"
    using reveal_rate_limiter
      [where cd = ?cd0 and m = 4 and u = 8 and t = 100 and t' = 100 and m' = 5 and u' = 8] o2
    by blast
  moreover have "is_rate_limited 100 ?cd0 5 8 = (False, ?cd0((5, 8) := Some 100))"
    using reveal_rate_limiter [where cd = ?cd0 and m = 5 and u = 8 and t = 100]
    by blast
  ultimately have 6: "\<not> fst (is_rate_limited 100 ?cd1 5 8)"
    by (simp add: 1 cd1)
  have run: "get_spoiler_cache reconstruct_world
       (init_Buttons\<lparr>spoiler_cooldown :=
          ?cd0((payload_message_id (reaction 4 8), payload_user_id (reaction 4 8)) := Some 100)\<rparr>)
       (payload_channel_id (reaction 4 8)) (payload_message_id (reaction 4 8))
     = (Inr (Some cat_record), after_reaction,
        [FetchMessage 1 4, FetchMessage 430229522340773899 7, CacheWrite 4])"
    by (simp add: get_spoiler_cache_def reconstruct_world_def init_Buttons_def lru_getitem_def
        front_door_def footer_pointer_def int_of_slot_def py_int_one_digit
        decode_archive_embed truthy_def cat_record_def lru_setitem_def spoiler_cache_size_def
        reaction_def after_reaction_def)
  have h: "emoji_id (reaction 4 8) = Some SPOILER_EMOJI_ID
      \<and> \<not> fst (is_rate_limited 100 ?cd0
                 (payload_message_id (reaction 4 8)) (payload_user_id (reaction 4 8)))
      \<and> ((get_user reconstruct_world (payload_user_id (reaction 4 8)) = Some ?user
            \<and> [FetchUser 8] = [])
          \<or> (get_user reconstruct_world (payload_user_id (reaction 4 8)) = None
              \<and> fetch_user reconstruct_world (payload_user_id (reaction 4 8)) = Inr ?user
              \<and> [FetchUser 8] = [FetchUser (payload_user_id (reaction 4 8))]))"
    by (simp add: reaction_def 1 reconstruct_world_def)
  have g: "\<not> bot ?user \<and> user_send reconstruct_world (user_id ?user) = None"
    by (simp add: reconstruct_world_def)
  have "on_raw_reaction_add reconstruct_world 100 init_Buttons (reaction 4 8)
       = (Inr (), after_reaction,
          [FetchUser 8]
            @ [FetchMessage 1 4, FetchMessage 430229522340773899 7, CacheWrite 4]
            @ [UserSend (user_id ?user) cat_record])"
    using reveal_rate_limiter
      [where payload = "reaction 4 8" and now = 100 and self = init_Buttons
         and w = reconstruct_world and user = ?user and ev = "[FetchUser 8]"
         and cache = cat_record and ?self2.0 = after_reaction
         and ?ev2.0 = "[FetchMessage 1 4, FetchMessage 430229522340773899 7, CacheWrite 4]"]
      h g run
    by blast
  then have 7: "on_raw_reaction_add reconstruct_world 100 init_Buttons (reaction 4 8)
       = (Inr (), after_reaction,
          [FetchUser 8, FetchMessage 1 4, FetchMessage 430229522340773899 7, CacheWrite 4,
           UserSend 8 cat_record])"
    by simp
  have d: "emoji_id (reaction 4 8) = Some SPOILER_EMOJI_ID
      \<and> fst (is_rate_limited 105 ?cd1
               (payload_message_id (reaction 4 8)) (payload_user_id (reaction 4 8)))"
    by (simp add: reaction_def 2)
  have 8: "on_raw_reaction_add reconstruct_world 105 after_reaction (reaction 4 8)
       = (Inr (), after_reaction, [])"
    using reveal_rate_limiter
      [where payload = "reaction 4 8" and now = 105 and self = after_reaction
         and w = reconstruct_world] d
    by blast
  have hit: "get_spoiler_cache reconstruct_world after_reaction 1 4
      = (Inr (Some cat_record), after_reaction, [])"
    by (simp add: get_spoiler_cache_def after_reaction_def lru_getitem_def)
  have 9: "reveal_spoiler reconstruct_world after_reaction 1 4
       = (Inr (), after_reaction, [] @ [RespondEmbed cat_record])"
    using reveal_rate_limiter
      [where w = reconstruct_world and self = after_reaction and cid = 1 and mid = 4
         and cache = cat_record and self' = after_reaction and ev' = "[]"] hit
    by blast
  from 1 2 3 4 5 6 7 8 9 show ?thesis
    by simp
qed

section \<open>The lookup cache\<close>

text \<open>
  C9. The cache is created empty with capacity 128; no store makes it longer than 128
  entries and no read makes it longer than it was, so \<open>get_spoiler_cache\<close> and
  \<open>spoiler\<close> keep it within 128. Storing a new key into a cache of 128 distinct keys
  removes exactly the least recently accessed entry, the last one, and keeps all
  others. A read of a key refreshes it: the key is still present after the next store
  of a new key into the full cache.
\<close>

theorem spoiler_cache_lru:
  "spoiler_cache_size = 128
   \<and> spoiler_cache init_Buttons = []
   \<and> length (lru_setitem spoiler_cache_size k v c) \<le> 128
   \<and> length (snd (lru_getitem k c)) \<le> length c
   \<and> (length (spoiler_cache self) \<le> 128 \<longrightarrow>
        length (spoiler_cache (fst (snd (get_spoiler_cache w self cid mid)))) \<le> 128)
   \<and> (length (spoiler_cache self) \<le> 128 \<longrightarrow>
        length (spoiler_cache (fst (snd (spoiler w self ctx ttl tx)))) \<le> 128)
   \<and> (distinct (map fst c) \<and> length c = 128 \<and> k \<notin> fst ` set c \<longrightarrow>
        lru_setitem spoiler_cache_size k v c = (k, v) # butlast c
        \<and> map_of (lru_setitem spoiler_cache_size k v c) (fst (last c)) = None)
   \<and> (distinct (map fst c) \<and> length c = 128 \<and> map_of c k' = Some v' \<and> k \<notin> fst ` set c \<longrightarrow>
        fst (lru_getitem k' c) = Some v'
        \<and> map_of (lru_setitem spoiler_cache_size k v (snd (lru_getitem k' c))) k' = Some v')"
proof (intro conjI impI)
  show "spoiler_cache_size = 128"
    by (simp add: spoiler_cache_size_def)
  show "spoiler_cache init_Buttons = []"
    by (simp add: init_Buttons_def)
  show "length (lru_setitem spoiler_cache_size k v c) \<le> 128"
    using lru_setitem_length [of spoiler_cache_size k v c] by (simp add: spoiler_cache_size_def)
  show "length (snd (lru_getitem k c)) \<le> length c"
    by (rule lru_getitem_length)
next
  assume "length (spoiler_cache self) \<le> 128"
  then show "length (spoiler_cache (fst (snd (get_spoiler_cache w self cid mid)))) \<le> 128"
    using get_spoiler_cache_length [of self w cid mid] by (simp add: spoiler_cache_size_def)
next
  assume "length (spoiler_cache self) \<le> 128"
  then show "length (spoiler_cache (fst (snd (spoiler w self ctx ttl tx)))) \<le> 128"
    using lru_setitem_length [of spoiler_cache_size]
    by (auto simp: spoiler_def Let_def spoiler_cache_size_def
        split: prod.splits sum.splits)
next
  assume a: "distinct (map fst c) \<and> length c = 128 \<and> k \<notin> fst ` set c"
  then show s: "lru_setitem spoiler_cache_size k v c = (k, v) # butlast c"
    by (simp add: lru_setitem_full spoiler_cache_size_def)
  from a have ne: "c \<noteq> []" by auto
  then have "last c \<in> set c" by simp
  with a have "k \<noteq> fst (last c)" by auto
  with a ne show "map_of (lru_setitem spoiler_cache_size k v c) (fst (last c)) = None"
    by (simp add: s map_of_butlast_last)
next
  assume a: "distinct (map fst c) \<and> length c = 128 \<and> map_of c k' = Some v' \<and> k \<notin> fst ` set c"
  then show "fst (lru_getitem k' c) = Some v'"
    by (simp add: lru_getitem_def)
  from a show "map_of (lru_setitem spoiler_cache_size k v (snd (lru_getitem k' c))) k' = Some v'"
    by (intro lru_refresh_survives) (simp_all add: spoiler_cache_size_def)
qed

theorem spoiler_cache_lru_witness:
  "lru_setitem spoiler_cache_size 500 7 full_cache = (500, 7) # butlast full_cache
   \<and> map_of (lru_setitem spoiler_cache_size 500 7 full_cache) 127 = None
   \<and> map_of (lru_setitem spoiler_cache_size 500 7 (snd (lru_getitem 127 full_cache))) 127
       = Some 127"
proof -
  have d: "distinct (map fst full_cache)"
    by (simp add: full_cache_def comp_def distinct_map inj_on_def)
  have l: "length full_cache = 128"
    by (simp add: full_cache_def)
  have n: "500 \<notin> fst ` set full_cache"
    by (auto simp: full_cache_def)
  have "(127, 127) \<in> set full_cache"
    unfolding full_cache_def by (simp add: image_iff)
  with d have m: "map_of full_cache 127 = Some 127"
    by (simp add: map_of_is_SomeI)
  have "[0..<Suc 127] = [0..<127] @ [127]"
    by (rule upt_Suc_append) simp
  moreover have "Suc 127 = 128"
    by simp
  ultimately have "[0..<128] = [0..<127] @ [127::nat]"
    by simp
  then have "full_cache = map (\<lambda>i. (int i, i)) [0..<127] @ [(127, 127)]"
    by (simp add: full_cache_def)
  then have "last full_cache = (127, 127)"
    by (metis last_snoc)
  then have la: "fst (last full_cache) = 127"
    by simp
  note t = spoiler_cache_lru [where c = full_cache and k = 500 and v = 7 and k' = 127 and v' = 127]
  have p1: "distinct (map fst full_cache) \<and> length full_cache = 128
      \<and> 500 \<notin> fst ` set full_cache"
    using d l n by blast
  have p2: "distinct (map fst full_cache) \<and> length full_cache = 128
      \<and> map_of full_cache 127 = Some 127 \<and> 500 \<notin> fst ` set full_cache"
    using d l n m by blast
  from t p1 have 1: "lru_setitem spoiler_cache_size 500 7 full_cache = (500, 7) # butlast full_cache"
    and "map_of (lru_setitem spoiler_cache_size 500 7 full_cache) (fst (last full_cache)) = None"
    by blast+
  then have 2: "map_of (lru_setitem spoiler_cache_size 500 7 full_cache) 127 = None"
    by (simp only: la)
  from t p2 have 3: "map_of (lru_setitem spoiler_cache_size 500 7 (snd (lru_getitem 127 full_cache))) 127
       = Some 127"
    by blast
  from 1 2 3 show ?thesis by blast
qed

section \<open>The archive codec\<close>

text \<open>
  C10. Every record that the decode step of reconstruction produces has a text that is
  absent or a non-empty string: a body slot that is missing or empty decodes to an
  absent text, so the archive copy of a record published with the empty string as its
  text decodes to a record without text.
\<close>

theorem decode_text_never_empty:
  "(decode message = Inr r \<longrightarrow>
      spoiler_text r = None \<or> (\<exists>s. spoiler_text r = Some s \<and> s \<noteq> []))
   \<and> (decode message = Inr r \<and> embeds message = data # rest
        \<and> (embed_description data = None \<or> embed_description data = Some [])
      \<longrightarrow> spoiler_text r = None)
   \<and> decode \<lparr> message_id = i, embeds = [archive_embed a c t (Some [])],
               message_attachments = atts \<rparr>
       = Inr \<lparr> author_id = a, channel_id = c, title = Some t, spoiler_text = None,
               attachments = atts \<rparr>"
proof (intro conjI impI)
  assume d: "decode message = Inr r"
  then show "spoiler_text r = None \<or> (\<exists>s. spoiler_text r = Some s \<and> s \<noteq> [])"
    by (auto simp: decode_def truthy_iff split: list.splits sum.splits if_splits)
next
  assume "decode message = Inr r \<and> embeds message = data # rest
        \<and> (embed_description data = None \<or> embed_description data = Some [])"
  then show "spoiler_text r = None"
    by (auto simp: decode_def truthy_def split: sum.splits)
next
  show "decode \<lparr> message_id = i, embeds = [archive_embed a c t (Some [])],
               message_attachments = atts \<rparr>
       = Inr \<lparr> author_id = a, channel_id = c, title = Some t, spoiler_text = None,
               attachments = atts \<rparr>"
    by (simp add: decode_archive_embed truthy_def)
qed

theorem decode_text_never_empty_witness:
  "decode \<lparr> message_id = 5,
            embeds = [\<lparr> embed_title = Some ''cat'', embed_description = Some [],
                        embed_author_name = Some (py_str 7), embed_footer_text = Some (py_str 9) \<rparr>],
            message_attachments = [] \<rparr>
     = Inr \<lparr> author_id = 7, channel_id = 9, title = Some ''cat'', spoiler_text = None,
             attachments = [] \<rparr>
   \<and> spoiler_text \<lparr> author_id = 7, channel_id = 9, title = Some ''cat'', spoiler_text = None,
             attachments = [] \<rparr> = None"
  using decode_text_never_empty
    [of "\<lparr> message_id = 5,
            embeds = [\<lparr> embed_title = Some ''cat'', embed_description = Some [],
                        embed_author_name = Some (py_str 7), embed_footer_text = Some (py_str 9) \<rparr>],
            message_attachments = [] \<rparr>"
        "\<lparr> author_id = 7, channel_id = 9, title = Some ''cat'', spoiler_text = None,
             attachments = [] \<rparr>"
        "\<lparr> embed_title = Some ''cat'', embed_description = Some [],
                        embed_author_name = Some (py_str 7), embed_footer_text = Some (py_str 9) \<rparr>"
        "[]" 5 7 9 "''cat''" "[]"]
  by (simp add: decode_def int_of_slot_py_str truthy_def)

text \<open>
  C3, as stated: decoding the archive encoding of a record gives the record back on
  every field. The text of a record published with the empty string is lost: the
  description is written only for a truthy text and read back as absent.
\<close>

theorem roundtrip_empty_text_counterexample:
  "decode \<lparr> message_id = 5, embeds = [archive_embed 7 9 ''cat'' (Some [])],
            message_attachments = [] \<rparr>
     \<noteq> Inr \<lparr> author_id = 7, channel_id = 9, title = Some ''cat'', spoiler_text = Some [],
             attachments = [] \<rparr>"
  by (simp add: decode_archive_embed truthy_def)

text \<open>
  C3, amended: for every author id, channel id, title, attachment list and every text
  that is absent or non-empty, decoding the archive encoding gives the record back on
  every field. The second part is the same for the record and the storage message
  that \<open>redirect_post\<close> returns, when the storage message carries the embed that was
  sent. The third part: a record whose text is the empty string decodes to the record
  with absent text.
\<close>

theorem decode_archive_roundtrip:
  "(tx \<noteq> Some [] \<longrightarrow>
      decode \<lparr> message_id = i, embeds = [archive_embed a c ttl tx], message_attachments = atts \<rparr>
        = Inr \<lparr> author_id = a, channel_id = c, title = Some ttl, spoiler_text = tx,
                attachments = atts \<rparr>)
   \<and> (redirect_post w ctx ttl tx = (Inr (message, cache), ev)
        \<and> embeds message = [archive_embed (ctx_author_id ctx) (ctx_channel_id ctx) ttl tx]
        \<and> tx \<noteq> Some []
      \<longrightarrow> decode message = Inr cache)
   \<and> decode \<lparr> message_id = i, embeds = [archive_embed a c ttl (Some [])],
               message_attachments = atts \<rparr>
       = Inr \<lparr> author_id = a, channel_id = c, title = Some ttl, spoiler_text = None,
               attachments = atts \<rparr>"
proof (intro conjI impI)
  show "decode \<lparr> message_id = i, embeds = [archive_embed a c ttl (Some [])],
               message_attachments = atts \<rparr>
       = Inr \<lparr> author_id = a, channel_id = c, title = Some ttl, spoiler_text = None,
               attachments = atts \<rparr>"
    by (simp add: decode_archive_embed truthy_def)
next
  assume "tx \<noteq> Some []"
  then show "decode \<lparr> message_id = i, embeds = [archive_embed a c ttl tx], message_attachments = atts \<rparr>
        = Inr \<lparr> author_id = a, channel_id = c, title = Some ttl, spoiler_text = tx,
                attachments = atts \<rparr>"
    by (cases tx) (simp_all add: decode_archive_embed truthy_def)
next
  assume h: "redirect_post w ctx ttl tx = (Inr (message, cache), ev)
        \<and> embeds message = [archive_embed (ctx_author_id ctx) (ctx_channel_id ctx) ttl tx]
        \<and> tx \<noteq> Some []"
  then have c: "cache = \<lparr> author_id = ctx_author_id ctx, channel_id = ctx_channel_id ctx,
                   title = Some ttl, spoiler_text = tx,
                   attachments = message_attachments message \<rparr>"
    using redirect_post_Inr by blast
  have m: "message = \<lparr> message_id = message_id message,
              embeds = [archive_embed (ctx_author_id ctx) (ctx_channel_id ctx) ttl tx],
              message_attachments = message_attachments message \<rparr>"
    using h by simp
  have "truthy tx \<or> tx = None"
    using h by (cases tx) (simp_all add: truthy_def)
  then show "decode message = Inr cache"
    by (subst m) (auto simp: decode_archive_embed c truthy_def)
qed

theorem decode_archive_roundtrip_witness:
  "decode \<lparr> message_id = 5, embeds = [archive_embed 7 9 ''cat'' (Some ''dies'')],
            message_attachments = [\<lparr> filename = ''img.png'', url = ''u'', size = 2097152 \<rparr>] \<rparr>
     = Inr \<lparr> author_id = 7, channel_id = 9, title = Some ''cat'',
             spoiler_text = Some ''dies'',
             attachments = [\<lparr> filename = ''img.png'', url = ''u'', size = 2097152 \<rparr>] \<rparr>"
  using decode_archive_roundtrip
    [where tx = "Some ''dies''" and i = 5 and a = 7 and c = 9 and ttl = "''cat''"
       and atts = "[\<lparr> filename = ''img.png'', url = ''u'', size = 2097152 \<rparr>]"]
  by simp

end
